theory Spec2Isabelle
  imports Complex_Main "HOL-Library.Multiset"
begin

section \<open>Search result serializers of readthedocs/search/serializers.py\<close>

text \<open>
  The module shapes the hits of a search query into plain nested records. The classes of
  the module are Django REST framework serializers: a declared field reads the attribute of
  the hit named by its \<^verbatim>\<open>source\<close>, a \<^verbatim>\<open>SerializerMethodField\<close> named
  \<^verbatim>\<open>f\<close> calls the method \<^verbatim>\<open>get_f\<close>, and the fields are evaluated in the
  order of their declaration. Strings are \<^typ>\<open>string\<close>, relevance scores are
  \<^typ>\<open>real\<close> (the finite floats, with their order), dictionaries are maps, and whatever
  the code mutates is passed in and returned.
\<close>

subsection \<open>Python values and built-ins\<close>

text \<open>Exceptions the modelled code can raise.\<close>

datatype error = ValueError | KeyError | AttributeError

text \<open>
  The value of a highlight attribute: a string or a list of strings (the index delivers
  lists of fragments; a bare string is what a caller may put in its place).
\<close>

datatype pyval = Str string | Lst "string list"

text \<open>Truth value of an object: the empty string and the empty list are false.\<close>

fun truthy :: "pyval \<Rightarrow> bool" where
  "truthy (Str s) = (s \<noteq> [])"
| "truthy (Lst l) = (l \<noteq> [])"

text \<open>\<^verbatim>\<open>list(v)\<close>: a list is copied, a string is split into its characters.\<close>

fun py_list :: "pyval \<Rightarrow> string list" where
  "py_list (Lst l) = l"
| "py_list (Str s) = map (\<lambda>c. [c]) s"

text \<open>
  An object read through \<^verbatim>\<open>getattr\<close> is the map of its attributes;
  \<^verbatim>\<open>getattr(obj, name, default)\<close> is the attribute, or the default when it is missing.
\<close>

type_synonym attrs = "string \<rightharpoonup> pyval"

definition getattr :: "attrs \<Rightarrow> string \<Rightarrow> pyval \<Rightarrow> pyval" where
  "getattr obj name dflt = (case obj name of Some v \<Rightarrow> v | None \<Rightarrow> dflt)"

text \<open>\<^verbatim>\<open>a or b\<close> is \<^verbatim>\<open>a\<close> when \<^verbatim>\<open>a\<close> is true, and \<^verbatim>\<open>b\<close> otherwise.\<close>

definition py_or :: "pyval \<Rightarrow> pyval \<Rightarrow> pyval" where
  "py_or a b = (if truthy a then a else b)"

text \<open>\<^verbatim>\<open>s.rstrip('/')\<close> and \<^verbatim>\<open>s.lstrip('/')\<close>.\<close>

definition lstrip :: "char \<Rightarrow> string \<Rightarrow> string" where
  "lstrip c s = dropWhile (\<lambda>x. x = c) s"

definition rstrip :: "char \<Rightarrow> string \<Rightarrow> string" where
  "rstrip c s = rev (dropWhile (\<lambda>x. x = c) (rev s))"

text \<open>
  \<^verbatim>\<open>sorted(xs, key=key, reverse=True)\<close>. CPython sorts stably in ascending order of
  the key; with \<^verbatim>\<open>reverse=True\<close> it reverses the list, sorts it, and reverses the
  result, which keeps elements of equal key in their original order.
\<close>

definition sorted_reverse :: "('a \<Rightarrow> real) \<Rightarrow> 'a list \<Rightarrow> 'a list" where
  "sorted_reverse key xs = rev (sort_key key (rev xs))"

subsection \<open>Highlights\<close>

text \<open>
  \<^verbatim>\<open>get_raw_field(obj, field, default=None)\<close>, lines 28 to 33:
  \<^verbatim>\<open>getattr(obj, f'{field}.raw', default) or getattr(obj, field, default)\<close>.
\<close>

definition get_raw_field :: "attrs \<Rightarrow> string \<Rightarrow> pyval \<Rightarrow> pyval" where
  "get_raw_field obj field dflt =
     py_or (getattr obj (field @ ''.raw'') dflt) (getattr obj field dflt)"

text \<open>
  The highlight serializers. Each field is a method field returning
  \<^verbatim>\<open>list(get_raw_field(obj, name, []))\<close>; the output is the dictionary of the declared
  fields in their order, here an association list whose values are Python values.
\<close>

definition ProjectHighlightSerializer :: "attrs \<Rightarrow> (string \<times> pyval) list" where
  "ProjectHighlightSerializer obj =
     [(''name'', Lst (py_list (get_raw_field obj ''name'' (Lst [])))),
      (''slug'', Lst (py_list (get_raw_field obj ''slug'' (Lst [])))),
      (''description'', Lst (py_list (get_raw_field obj ''description'' (Lst []))))]"

definition PageHighlightSerializer :: "attrs \<Rightarrow> (string \<times> pyval) list" where
  "PageHighlightSerializer obj =
     [(''title'', Lst (py_list (get_raw_field obj ''title'' (Lst []))))]"

definition DomainHighlightSerializer :: "attrs \<Rightarrow> (string \<times> pyval) list" where
  "DomainHighlightSerializer obj =
     [(''name'', Lst (py_list (get_raw_field obj ''domains.name'' (Lst [])))),
      (''content'', Lst (py_list (get_raw_field obj ''domains.docstrings'' (Lst []))))]"

definition SectionHighlightSerializer :: "attrs \<Rightarrow> (string \<times> pyval) list" where
  "SectionHighlightSerializer obj =
     [(''title'', Lst (py_list (get_raw_field obj ''sections.title'' (Lst [])))),
      (''content'', Lst (py_list (get_raw_field obj ''sections.content'' (Lst []))))]"

text \<open>
  A nested highlight serializer is declared with
  \<^verbatim>\<open>source='meta.highlight', default=dict\<close>: a hit without highlight data is
  serialized from the empty dictionary.
\<close>

definition highlight_source :: "attrs option \<Rightarrow> attrs" where
  "highlight_source h = (case h of None \<Rightarrow> Map.empty | Some m \<Rightarrow> m)"

fun is_Lst :: "pyval \<Rightarrow> bool" where
  "is_Lst (Lst l) = True"
| "is_Lst (Str s) = False"

subsection \<open>The regular expression of the link rewriting\<close>

text \<open>
  \<^verbatim>\<open>re.sub('(^|/)index.html$', '/', path)\<close>. In the pattern the dot is not escaped, so
  it stands for any character but a newline, and \<^verbatim>\<open>$\<close> matches at the end of the
  string and also before a newline that ends the string.

  \<open>index_html_end s\<close> matches \<^verbatim>\<open>index.html$\<close> at the head of \<open>s\<close>; it returns what
  follows the match (nothing, or the final newline).
\<close>

fun index_html_end :: "string \<Rightarrow> string option" where
  "index_html_end (i # n # d # e # x # c # h # t # m # l # rest) =
     (if [i, n, d, e, x] = ''index'' \<and> c \<noteq> CHR 0x0A \<and> [h, t, m, l] = ''html''
         \<and> (rest = [] \<or> rest = [CHR 0x0A])
      then Some rest else None)"
| "index_html_end s = None"

text \<open>
  The substitution scans the start positions from left to right. At the start of the
  string the alternative \<^verbatim>\<open>^\<close> is tried first, then, at every position,
  \<^verbatim>\<open>/\<close>. The first match is replaced by \<^verbatim>\<open>/\<close>; what follows it is too short for
  another match and is copied.
\<close>

fun re_sub_scan :: "bool \<Rightarrow> string \<Rightarrow> string" where
  "re_sub_scan at_start s =
     (case (if at_start then index_html_end s else None) of
        Some rest \<Rightarrow> ''/'' @ rest
      | None \<Rightarrow>
          (case s of
             [] \<Rightarrow> []
           | c # cs \<Rightarrow>
               (case (if c = CHR ''/'' then index_html_end cs else None) of
                  Some rest \<Rightarrow> ''/'' @ rest
                | None \<Rightarrow> c # re_sub_scan False cs)))"

definition re_sub_index_html :: "string \<Rightarrow> string" where
  "re_sub_index_html path = re_sub_scan True path"

subsection \<open>urllib.parse.urlparse\<close>

text \<open>
  \<^verbatim>\<open>urlparse\<close> of the standard library (CPython 3.11.10, \<^verbatim>\<open>Lib/urllib/parse.py\<close>
  and \<^verbatim>\<open>Lib/ipaddress.py\<close>), for \<^verbatim>\<open>str\<close> arguments and the default
  \<^verbatim>\<open>scheme=''\<close> and \<^verbatim>\<open>allow_fragments=True\<close>. The cache of parsed results is
  left out. A \<^typ>\<open>char\<close> is a code point below 256.
\<close>

definition WHATWG_C0_CONTROL_OR_SPACE :: "char \<Rightarrow> bool" where
  "WHATWG_C0_CONTROL_OR_SPACE c = ((of_char c :: nat) \<le> 32)"

definition UNSAFE_URL_BYTES_TO_REMOVE :: "char list" where
  "UNSAFE_URL_BYTES_TO_REMOVE = [CHR 0x09, CHR 0x0D, CHR 0x0A]"

definition scheme_chars :: "char list" where
  "scheme_chars = ''abcdefghijklmnopqrstuvwxyzABCDEFGHIJKLMNOPQRSTUVWXYZ0123456789+-.''"

definition uses_params :: "string list" where
  "uses_params = ['''', ''ftp'', ''hdl'', ''prospero'', ''http'', ''imap'', ''https'',
     ''shttp'', ''rtsp'', ''rtsps'', ''rtspu'', ''sip'', ''sips'', ''mms'', ''sftp'', ''tel'']"

text \<open>\<^verbatim>\<open>s.isascii()\<close>, and \<^verbatim>\<open>c.isascii() and c.isalpha()\<close> for one character.\<close>

definition isascii :: "string \<Rightarrow> bool" where
  "isascii s = list_all (\<lambda>c. (of_char c :: nat) < 128) s"

definition ascii_alpha :: "char \<Rightarrow> bool" where
  "ascii_alpha c = (c \<in> set ''abcdefghijklmnopqrstuvwxyzABCDEFGHIJKLMNOPQRSTUVWXYZ'')"

text \<open>\<^verbatim>\<open>str.lower\<close> on one ASCII character.\<close>

definition lower_char :: "char \<Rightarrow> char" where
  "lower_char c =
     (let n = (of_char c :: nat) in if 65 \<le> n \<and> n \<le> 90 then char_of (n + 32) else c)"

text \<open>
  The scheme: \<^verbatim>\<open>i = url.find(':')\<close>; when \<^verbatim>\<open>i > 0\<close>, the first character is an
  ASCII letter and every character before the colon is a scheme character, the scheme is
  that prefix in lower case and the URL goes on after the colon.
\<close>

definition split_scheme :: "string \<Rightarrow> string \<times> string" where
  "split_scheme url =
     (let pre = takeWhile (\<lambda>c. c \<noteq> CHR '':'') url in
      if CHR '':'' \<in> set url \<and> pre \<noteq> [] \<and> ascii_alpha (hd url)
         \<and> list_all (\<lambda>c. c \<in> set scheme_chars) pre
      then (map lower_char pre, drop (length pre + 1) url)
      else ('''', url))"

text \<open>
  \<^verbatim>\<open>_splitnetloc(url, 2)\<close>, given the URL after its two slashes: the host ends at the
  first of \<^verbatim>\<open>/\<close>, \<^verbatim>\<open>?\<close> and \<^verbatim>\<open>#\<close>.
\<close>

definition splitnetloc :: "string \<Rightarrow> string \<times> string" where
  "splitnetloc url =
     (takeWhile (\<lambda>c. c \<notin> {CHR ''/'', CHR ''?'', CHR ''#''}) url,
      dropWhile (\<lambda>c. c \<notin> {CHR ''/'', CHR ''?'', CHR ''#''}) url)"

text \<open>\<^verbatim>\<open>url.split(c, 1)\<close> when \<open>c\<close> is in the URL, and the URL with an empty rest otherwise.\<close>

definition split_first :: "char \<Rightarrow> string \<Rightarrow> string \<times> string" where
  "split_first c url = (takeWhile (\<lambda>x. x \<noteq> c) url, drop 1 (dropWhile (\<lambda>x. x \<noteq> c) url))"

text \<open>\<^verbatim>\<open>s.split(c)\<close>: the parts of \<open>s\<close> between the occurrences of \<open>c\<close>.\<close>

fun split_on :: "char \<Rightarrow> string \<Rightarrow> string list" where
  "split_on c [] = [[]]"
| "split_on c (x # xs) =
     (if x = c then [] # split_on c xs
      else (case split_on c xs of [] \<Rightarrow> [[x]] | p # ps \<Rightarrow> (x # p) # ps))"

text \<open>
  \<^verbatim>\<open>ipaddress.IPv4Address(s)\<close>: the address as a number, or \<^verbatim>\<open>None\<close> where the
  constructor raises. An octet is one to three ASCII digits without a leading zero, at
  most 255.
\<close>

definition decimal :: "string \<Rightarrow> nat" where
  "decimal s = foldl (\<lambda>a c. 10 * a + ((of_char c :: nat) - 48)) 0 s"

definition parse_octet :: "string \<Rightarrow> nat option" where
  "parse_octet octet_str =
     (if octet_str = [] then None
      else if \<not> list_all (\<lambda>c. c \<in> set ''0123456789'') octet_str then None
      else if length octet_str > 3 then None
      else if octet_str \<noteq> ''0'' \<and> hd octet_str = CHR ''0'' then None
      else if decimal octet_str > 255 then None
      else Some (decimal octet_str))"

fun octets_int :: "nat \<Rightarrow> string list \<Rightarrow> nat option" where
  "octets_int acc [] = Some acc"
| "octets_int acc (x # xs) =
     (case parse_octet x of None \<Rightarrow> None | Some v \<Rightarrow> octets_int (256 * acc + v) xs)"

definition IPv4Address :: "string \<Rightarrow> nat option" where
  "IPv4Address addr_str =
     (if CHR ''/'' \<in> set addr_str then None
      else if addr_str = [] then None
      else (let octets = split_on CHR ''.'' addr_str in
            if length octets \<noteq> 4 then None else octets_int 0 octets))"

text \<open>\<^verbatim>\<open>'%x' % n\<close> for a number below 65536.\<close>

definition hex_digit :: "nat \<Rightarrow> char" where
  "hex_digit n = ''0123456789abcdef'' ! (n mod 16)"

definition hex16 :: "nat \<Rightarrow> string" where
  "hex16 n =
     (case dropWhile (\<lambda>c. c = CHR ''0'')
             [hex_digit (n div 4096), hex_digit (n div 256), hex_digit (n div 16), hex_digit n]
      of [] \<Rightarrow> ''0'' | ds \<Rightarrow> ds)"

text \<open>
  \<^verbatim>\<open>ipaddress.IPv6Address(s)\<close>, as far as it raises or not. A hextet is one to four
  hexadecimal digits (\<^verbatim>\<open>int('', 16)\<close> raises). \<open>IPv6_parts\<close> is
  \<^verbatim>\<open>_ip_int_from_string\<close> from the search for \<^verbatim>\<open>::\<close> on.
\<close>

definition valid_hextet :: "string \<Rightarrow> bool" where
  "valid_hextet hextet_str =
     (list_all (\<lambda>c. c \<in> set ''0123456789ABCDEFabcdef'') hextet_str
      \<and> length hextet_str \<le> 4 \<and> hextet_str \<noteq> [])"

definition IPv6_parts :: "string list \<Rightarrow> bool" where
  "IPv6_parts parts =
     (let skips = filter (\<lambda>i. parts ! i = []) [1..<length parts - 1] in
      if length skips > 1 then False
      else
        (case skips of
           [] \<Rightarrow>
             length parts = 8 \<and> hd parts \<noteq> [] \<and> last parts \<noteq> []
             \<and> list_all valid_hextet parts
         | skip_index # _ \<Rightarrow>
             (let parts_hi = (if hd parts = [] then skip_index - 1 else skip_index);
                  parts_lo = (if last parts = [] then length parts - skip_index - 1 - 1
                              else length parts - skip_index - 1)
              in if hd parts = [] \<and> parts_hi \<noteq> 0 then False
                 else if last parts = [] \<and> parts_lo \<noteq> 0 then False
                 else if parts_hi + parts_lo > 7 then False
                 else list_all valid_hextet (take parts_hi parts)
                      \<and> list_all valid_hextet (drop (length parts - parts_lo) parts))))"

definition IPv6_address :: "string \<Rightarrow> bool" where
  "IPv6_address ip_str =
     (if ip_str = [] then False
      else
        (let parts = split_on CHR '':'' ip_str in
         if length parts < 3 then False
         else
           (case (if CHR ''.'' \<in> set (last parts)
                  then (case IPv4Address (last parts) of
                          None \<Rightarrow> None
                        | Some ipv4_int \<Rightarrow>
                            Some (butlast parts
                                  @ [hex16 ((ipv4_int div 65536) mod 65536),
                                     hex16 (ipv4_int mod 65536)]))
                  else Some parts)
            of None \<Rightarrow> False
             | Some parts \<Rightarrow> if length parts > 9 then False else IPv6_parts parts)))"

definition IPv6Address :: "string \<Rightarrow> bool" where
  "IPv6Address addr_str =
     (if CHR ''/'' \<in> set addr_str then False
      else if CHR ''%'' \<in> set addr_str then
        (let scope_id = drop 1 (dropWhile (\<lambda>c. c \<noteq> CHR ''%'') addr_str) in
         if scope_id = [] \<or> CHR ''%'' \<in> set scope_id then False
         else IPv6_address (takeWhile (\<lambda>c. c \<noteq> CHR ''%'') addr_str))
      else IPv6_address addr_str)"

text \<open>
  \<^verbatim>\<open>_check_bracketed_host\<close>: true when it returns, false when it raises. A host that
  starts with \<^verbatim>\<open>v\<close> has to match \<^verbatim>\<open>\Av[a-fA-F0-9]+\..+\Z\<close>; any other has to be
  an IPv6 address and not an IPv4 address.
\<close>

definition check_bracketed_host :: "string \<Rightarrow> bool" where
  "check_bracketed_host hostname =
     (if take 1 hostname = ''v'' then
        (let digits = takeWhile (\<lambda>c. c \<in> set ''0123456789ABCDEFabcdef'') (drop 1 hostname);
             rest = drop (1 + length digits) hostname
         in digits \<noteq> [] \<and> take 1 rest = ''.'' \<and> drop 1 rest \<noteq> []
            \<and> CHR 0x0A \<notin> set (drop 1 rest))
      else IPv4Address hostname = None \<and> IPv6Address hostname)"

text \<open>
  \<^verbatim>\<open>unicodedata.normalize('NFKC', s)\<close> for code points below 256, as a list of code
  points: no two of these characters compose, and these fourteen have a compatibility
  form of their own.
\<close>

definition nfkc_char :: "char \<Rightarrow> nat list" where
  "nfkc_char c =
     (let n = (of_char c :: nat) in
      if n = 160 then [32] else if n = 168 then [32, 776] else if n = 170 then [97]
      else if n = 175 then [32, 772] else if n = 178 then [50] else if n = 179 then [51]
      else if n = 180 then [32, 769] else if n = 181 then [956] else if n = 184 then [32, 807]
      else if n = 185 then [49] else if n = 186 then [111] else if n = 188 then [49, 8260, 52]
      else if n = 189 then [49, 8260, 50] else if n = 190 then [51, 8260, 52]
      else [n])"

text \<open>\<^verbatim>\<open>_checknetloc\<close>: true when it returns, false when it raises.\<close>

definition checknetloc :: "string \<Rightarrow> bool" where
  "checknetloc loc =
     (if loc = [] \<or> isascii loc then True
      else
        (let n = filter (\<lambda>c. c \<notin> set ''@:#?'') loc;
             netloc2 = concat (map nfkc_char n)
         in if map of_char n = netloc2 then True
            else \<not> list_ex (\<lambda>c. (of_char c :: nat) \<in> set netloc2) ''/?#@:''))"

text \<open>
  \<^verbatim>\<open>urlsplit\<close>: scheme, netloc, path, query, fragment. Every exception it raises is
  a \<^verbatim>\<open>ValueError\<close>.
\<close>

definition urlsplit :: "string \<Rightarrow> error + (string \<times> string \<times> string \<times> string \<times> string)" where
  "urlsplit url0 =
     (let url = dropWhile WHATWG_C0_CONTROL_OR_SPACE url0;
          url = filter (\<lambda>c. c \<notin> set UNSAFE_URL_BYTES_TO_REMOVE) url;
          (scheme, url) = split_scheme url;
          (netloc, url) =
             (if take 2 url = ''//'' then splitnetloc (drop 2 url) else ('''', url))
      in if (CHR ''['' \<in> set netloc \<and> CHR '']'' \<notin> set netloc)
            \<or> (CHR '']'' \<in> set netloc \<and> CHR ''['' \<notin> set netloc)
         then Inl ValueError
         else if CHR ''['' \<in> set netloc \<and> CHR '']'' \<in> set netloc
              \<and> \<not> check_bracketed_host
                    (takeWhile (\<lambda>c. c \<noteq> CHR '']'')
                       (drop 1 (dropWhile (\<lambda>c. c \<noteq> CHR ''['') netloc)))
         then Inl ValueError
         else
           (let (url, fragment) = split_first CHR ''#'' url;
                (url, query) = split_first CHR ''?'' url
            in if checknetloc netloc then Inr (scheme, netloc, url, query, fragment)
               else Inl ValueError))"

text \<open>
  \<^verbatim>\<open>_splitparams\<close>: the parameters start at the first \<^verbatim>\<open>;\<close> of the last segment of
  the path.
\<close>

definition splitparams :: "string \<Rightarrow> string \<times> string" where
  "splitparams url =
     (let seg = rev (takeWhile (\<lambda>c. c \<noteq> CHR ''/'') (rev url));
          dir = take (length url - length seg) url
      in (dir @ takeWhile (\<lambda>c. c \<noteq> CHR '';'') seg,
          drop 1 (dropWhile (\<lambda>c. c \<noteq> CHR '';'') seg)))"

record ParseResult =
  scheme :: string
  netloc :: string
  path :: string
  params :: string
  query :: string
  fragment :: string

definition urlparse :: "string \<Rightarrow> error + ParseResult" where
  "urlparse url =
     (case urlsplit url of
        Inl e \<Rightarrow> Inl e
      | Inr (sch, loc, url, qry, frag) \<Rightarrow>
          (let (url, prm) =
                 (if sch \<in> set uses_params \<and> CHR '';'' \<in> set url
                  then splitparams url else (url, ''''))
           in Inr \<lparr>scheme = sch, netloc = loc, path = url, params = prm,
                   query = qry, fragment = frag\<rparr>))"

subsection \<open>Hits, the project registry and the serializer context\<close>

text \<open>
  The cached data of a project, lines 24 and 25:
  \<^verbatim>\<open>ProjectData = namedtuple('ProjectData', ['version', 'alias'])\<close> and
  \<^verbatim>\<open>VersionData = namedtuple('VersionData', ['slug', 'docs_url'])\<close>.
  A named tuple of two fields is never empty, so a \<^verbatim>\<open>ProjectData\<close> is always true.
\<close>

record VersionData =
  vd_slug :: string
  vd_docs_url :: string

record ProjectData =
  pd_version :: VersionData
  pd_alias :: "string option"

text \<open>
  A row of the project registry, as far as the module reads it:
  \<^verbatim>\<open>project.get_docs_url(version_slug=...)\<close> and the aliases
  \<^verbatim>\<open>project.superprojects.values_list('alias', flat=True)\<close>, a column that may hold
  \<^verbatim>\<open>None\<close>.
\<close>

record Project =
  get_docs_url :: "string \<Rightarrow> string"
  superprojects_alias :: "string option list"

text \<open>\<^verbatim>\<open>QuerySet.first()\<close> on a column of optional values.\<close>

definition first :: "'a option list \<Rightarrow> 'a option" where
  "first xs = (case xs of [] \<Rightarrow> None | x # _ \<Rightarrow> x)"

text \<open>
  What the module reads and never writes: the registry
  (\<^verbatim>\<open>Project.objects.filter(slug=...).first()\<close>) and the two doctype constants of
  \<^verbatim>\<open>readthedocs.projects.constants\<close>, which is not among the sources.
\<close>

record env =
  registry :: "string \<Rightarrow> Project option"
  SPHINX_HTMLDIR :: string
  MKDOCS :: string

text \<open>
  What the serializer mutates: the entry \<^verbatim>\<open>projects_data\<close> of its context (absent
  until someone sets it) and, to count them, the number of registry lookups made so far.
\<close>

record session =
  projects_data :: "(string \<rightharpoonup> ProjectData) option"
  lookups :: nat

text \<open>
  The hits. A record has the attributes that the serializer of its kind of hit reads, with
  the types the index gives them; \<^verbatim>\<open>meta.highlight\<close> and \<^verbatim>\<open>type\<close> may be
  missing. For the nested hits of a page the attribute \<^verbatim>\<open>type\<close> is the one
  \<^verbatim>\<open>get_blocks\<close> sets; the index does not deliver it.
\<close>

record section_hit =
  s_type :: "string option"
  s_id :: string
  s_title :: string
  s_content :: string
  s_score :: real
  s_highlight :: "attrs option"

record domain_hit =
  d_type :: "string option"
  d_role_name :: string
  d_name :: string
  d_anchor :: string
  d_docstrings :: string
  d_score :: real
  d_highlight :: "attrs option"

text \<open>An element of \<^verbatim>\<open>itertools.chain(sections, domains)\<close>.\<close>

datatype inner_hit = SectionHit section_hit | DomainHit domain_hit

fun hit_type :: "inner_hit \<Rightarrow> string option" where
  "hit_type (SectionHit s) = s_type s"
| "hit_type (DomainHit d) = d_type d"

fun meta_score :: "inner_hit \<Rightarrow> real" where
  "meta_score (SectionHit s) = s_score s"
| "meta_score (DomainHit d) = d_score d"

text \<open>
  A page hit. The groups \<^verbatim>\<open>meta.inner_hits.sections\<close> and
  \<^verbatim>\<open>meta.inner_hits.domains\<close> may be \<^verbatim>\<open>None\<close>.
\<close>

record page_hit =
  p_type :: "string option"
  p_project :: string
  p_version :: string
  p_title :: string
  p_full_path :: string
  p_doctype :: string
  p_highlight :: "attrs option"
  p_sections :: "section_hit list option"
  p_domains :: "domain_hit list option"

record project_hit =
  j_type :: "string option"
  j_name :: string
  j_slug :: string
  j_url :: string
  j_description :: string
  j_highlight :: "attrs option"

text \<open>The serialized results, one record for each serializer's \<^verbatim>\<open>data\<close>.\<close>

record section_result =
  sr_type :: string
  sr_id :: string
  sr_title :: string
  sr_content :: string
  sr_highlights :: "(string \<times> pyval) list"

record domain_result =
  dr_type :: string
  dr_role :: string
  dr_name :: string
  dr_id :: string
  dr_content :: string
  dr_highlights :: "(string \<times> pyval) list"

datatype block = SectionBlock section_result | DomainBlock domain_result

record page_result =
  pr_type :: string
  pr_project :: string
  pr_project_alias :: "string option"
  pr_version :: string
  pr_title :: string
  pr_path :: "string option"
  pr_domain :: "string option"
  pr_highlights :: "(string \<times> pyval) list"
  pr_blocks :: "block list"

record project_result =
  jr_type :: string
  jr_name :: string
  jr_slug :: string
  jr_link :: string
  jr_description :: string
  jr_highlights :: "(string \<times> pyval) list"

text \<open>
  The field \<^verbatim>\<open>type = CharField(default=..., source=None, read_only=True)\<close> reads the
  attribute \<^verbatim>\<open>type\<close> of the hit and falls back to the default.
\<close>

definition type_field :: "string option \<Rightarrow> string \<Rightarrow> string" where
  "type_field t dflt = (case t of Some v \<Rightarrow> v | None \<Rightarrow> dflt)"

subsection \<open>Leaf serializers\<close>

definition ProjectSearchSerializer :: "project_hit \<Rightarrow> project_result" where
  "ProjectSearchSerializer obj =
     \<lparr>jr_type = type_field (j_type obj) ''project'',
      jr_name = j_name obj,
      jr_slug = j_slug obj,
      jr_link = j_url obj,
      jr_description = j_description obj,
      jr_highlights = ProjectHighlightSerializer (highlight_source (j_highlight obj))\<rparr>"

definition SectionSearchSerializer :: "section_hit \<Rightarrow> section_result" where
  "SectionSearchSerializer obj =
     \<lparr>sr_type = type_field (s_type obj) ''section'',
      sr_id = s_id obj,
      sr_title = s_title obj,
      sr_content = s_content obj,
      sr_highlights = SectionHighlightSerializer (highlight_source (s_highlight obj))\<rparr>"

definition DomainSearchSerializer :: "domain_hit \<Rightarrow> domain_result" where
  "DomainSearchSerializer obj =
     \<lparr>dr_type = type_field (d_type obj) ''domain'',
      dr_role = d_role_name obj,
      dr_name = d_name obj,
      dr_id = d_anchor obj,
      dr_content = d_docstrings obj,
      dr_highlights = DomainHighlightSerializer (highlight_source (d_highlight obj))\<rparr>"

subsection \<open>Project data and links\<close>

text \<open>
  \<^verbatim>\<open>_get_project_data\<close>, lines 90 to 118. The lookup
  \<^verbatim>\<open>self.context.get('projects_data', {}).get(obj.project)\<close> is a hit when the
  dictionary is there and has the slug; otherwise the registry is asked once, and a
  project found is stored under its slug in \<^verbatim>\<open>projects_data\<close>, which
  \<^verbatim>\<open>setdefault\<close> creates when the context has none.
\<close>

definition cached :: "session \<Rightarrow> string \<Rightarrow> ProjectData option" where
  "cached st project = (case projects_data st of None \<Rightarrow> None | Some d \<Rightarrow> d project)"

definition get_project_data ::
  "env \<Rightarrow> session \<Rightarrow> page_hit \<Rightarrow> ProjectData option \<times> session" where
  "get_project_data e st obj =
     (case cached st (p_project obj) of
        Some project_data \<Rightarrow> (Some project_data, st)
      | None \<Rightarrow>
          (case registry e (p_project obj) of
             Some project \<Rightarrow>
               (let docs_url = get_docs_url project (p_version obj);
                    project_alias = first (superprojects_alias project);
                    d = (case projects_data st of None \<Rightarrow> Map.empty | Some d \<Rightarrow> d);
                    version_data = \<lparr>vd_slug = p_version obj, vd_docs_url = docs_url\<rparr>;
                    project_data = \<lparr>pd_version = version_data, pd_alias = project_alias\<rparr>
                in (Some project_data,
                    st\<lparr>projects_data := Some (d(p_project obj \<mapsto> project_data)),
                       lookups := lookups st + 1\<rparr>))
           | None \<Rightarrow> (None, st\<lparr>lookups := lookups st + 1\<rparr>)))"

text \<open>\<^verbatim>\<open>get_project_alias\<close>, lines 120 to 124.\<close>

definition get_project_alias ::
  "env \<Rightarrow> session \<Rightarrow> page_hit \<Rightarrow> string option \<times> session" where
  "get_project_alias e st obj =
     (case get_project_data e st obj of
        (Some project_data, st') \<Rightarrow> (pd_alias project_data, st')
      | (None, st') \<Rightarrow> (None, st'))"

text \<open>
  \<^verbatim>\<open>_get_full_path\<close>, lines 140 to 152. \<open>htmldir_path\<close> is the variable
  \<^verbatim>\<open>path\<close> after lines 144 to 149: the path of the hit, rewritten for the two
  doctypes that serve directories.
\<close>

definition htmldir_path :: "env \<Rightarrow> page_hit \<Rightarrow> string" where
  "htmldir_path e obj =
     (if p_doctype obj \<in> {SPHINX_HTMLDIR e, MKDOCS e}
      then re_sub_index_html (p_full_path obj) else p_full_path obj)"

definition get_full_path ::
  "env \<Rightarrow> session \<Rightarrow> page_hit \<Rightarrow> string option \<times> session" where
  "get_full_path e st obj =
     (case get_project_data e st obj of
        (Some project_data, st') \<Rightarrow>
          (let docs_url = vd_docs_url (pd_version project_data);
               pth = htmldir_path e obj
           in (Some (rstrip CHR ''/'' docs_url @ ''/'' @ lstrip CHR ''/'' pth), st'))
      | (None, st') \<Rightarrow> (None, st'))"

text \<open>
  \<^verbatim>\<open>get_domain\<close>, lines 126 to 131, and \<^verbatim>\<open>get_path\<close>, lines 133 to 138. The test
  \<^verbatim>\<open>if full_path\<close> is false for \<^verbatim>\<open>None\<close> and for the empty string.
\<close>

definition get_domain ::
  "env \<Rightarrow> session \<Rightarrow> page_hit \<Rightarrow> (error + string option) \<times> session" where
  "get_domain e st obj =
     (case get_full_path e st obj of
        (Some full, st') \<Rightarrow>
          (if full \<noteq> [] then
             (case urlparse full of
                Inl err \<Rightarrow> (Inl err, st')
              | Inr parsed \<Rightarrow> (Inr (Some (scheme parsed @ ''://'' @ netloc parsed)), st'))
           else (Inr None, st'))
      | (None, st') \<Rightarrow> (Inr None, st'))"

definition get_path ::
  "env \<Rightarrow> session \<Rightarrow> page_hit \<Rightarrow> (error + string option) \<times> session" where
  "get_path e st obj =
     (case get_full_path e st obj of
        (Some full, st') \<Rightarrow>
          (if full \<noteq> [] then
             (case urlparse full of
                Inl err \<Rightarrow> (Inl err, st')
              | Inr parsed \<Rightarrow> (Inr (Some (path parsed)), st'))
           else (Inr None, st'))
      | (None, st') \<Rightarrow> (Inr None, st'))"

subsection \<open>Blocks\<close>

text \<open>
  \<^verbatim>\<open>get_blocks\<close>, lines 154 to 180. The groups are
  \<^verbatim>\<open>inner_hits.sections or []\<close> and \<^verbatim>\<open>inner_hits.domains or []\<close>; the two loops
  set the attribute \<^verbatim>\<open>type\<close> of every hit of a group, in place.
\<close>

definition or_empty :: "'a list option \<Rightarrow> 'a list" where
  "or_empty g = (case g of None \<Rightarrow> [] | Some xs \<Rightarrow> xs)"

definition tag_sections :: "section_hit list \<Rightarrow> section_hit list" where
  "tag_sections ss = map (\<lambda>s. s\<lparr>s_type := Some ''section''\<rparr>) ss"

definition tag_domains :: "domain_hit list \<Rightarrow> domain_hit list" where
  "tag_domains ds = map (\<lambda>d. d\<lparr>d_type := Some ''domain''\<rparr>) ds"

text \<open>
  The page hit after the two loops: the hits of a group that is there carry their tag (an
  empty group has no hit to tag).
\<close>

definition tagged :: "page_hit \<Rightarrow> page_hit" where
  "tagged obj =
     obj\<lparr>p_sections := map_option tag_sections (p_sections obj),
         p_domains := map_option tag_domains (p_domains obj)\<rparr>"

text \<open>
  The first \<^verbatim>\<open>sorted_results\<close>, lines 171 to 175: the chain of the tagged groups,
  sorted by \<^verbatim>\<open>meta.score\<close> with \<^verbatim>\<open>reverse=True\<close>.
\<close>

definition chain :: "page_hit \<Rightarrow> inner_hit list" where
  "chain obj =
     map SectionHit (or_empty (p_sections obj)) @ map DomainHit (or_empty (p_domains obj))"

definition sorted_results :: "page_hit \<Rightarrow> inner_hit list" where
  "sorted_results obj = sorted_reverse meta_score (chain (tagged obj))"

text \<open>
  \<^verbatim>\<open>serializers[hit.type](hit).data\<close>: the serializer is looked up by the tag. A hit
  without the attribute raises \<^verbatim>\<open>AttributeError\<close>, a tag that is not a key of the
  dictionary raises \<^verbatim>\<open>KeyError\<close>, and a serializer given a hit of the other group
  does not find its fields.
\<close>

definition serialize_inner :: "inner_hit \<Rightarrow> error + block" where
  "serialize_inner hit =
     (case hit_type hit of
        None \<Rightarrow> Inl AttributeError
      | Some t \<Rightarrow>
          if t = ''domain'' then
            (case hit of
               DomainHit d \<Rightarrow> Inr (DomainBlock (DomainSearchSerializer d))
             | SectionHit s \<Rightarrow> Inl AttributeError)
          else if t = ''section'' then
            (case hit of
               SectionHit s \<Rightarrow> Inr (SectionBlock (SectionSearchSerializer s))
             | DomainHit d \<Rightarrow> Inl AttributeError)
          else Inl KeyError)"

text \<open>The list comprehension of lines 176 to 179 stops at the first exception.\<close>

fun serialize_all :: "inner_hit list \<Rightarrow> error + block list" where
  "serialize_all [] = Inr []"
| "serialize_all (h # hs) =
     (case serialize_inner h of
        Inl err \<Rightarrow> Inl err
      | Inr b \<Rightarrow> (case serialize_all hs of Inl err \<Rightarrow> Inl err | Inr bs \<Rightarrow> Inr (b # bs)))"

definition get_blocks :: "page_hit \<Rightarrow> (error + block list) \<times> page_hit" where
  "get_blocks obj = (serialize_all (sorted_results obj), tagged obj)"

subsection \<open>The page serializer\<close>

text \<open>
  \<^verbatim>\<open>PageSearchSerializer(obj, context=...).data\<close>: the fields in the order of lines 80
  to 88. The method fields \<^verbatim>\<open>project_alias\<close>, \<^verbatim>\<open>path\<close> and \<^verbatim>\<open>domain\<close> each
  call \<^verbatim>\<open>_get_project_data\<close>; \<^verbatim>\<open>blocks\<close> comes last. An exception ends the
  serialization with what was mutated until then.
\<close>

definition PageSearchSerializer ::
  "env \<Rightarrow> session \<Rightarrow> page_hit \<Rightarrow> (error + page_result) \<times> page_hit \<times> session" where
  "PageSearchSerializer e st obj =
     (case get_project_alias e st obj of (project_alias, st1) \<Rightarrow>
      (case get_path e st1 obj of
         (Inl err, st2) \<Rightarrow> (Inl err, obj, st2)
       | (Inr pth, st2) \<Rightarrow>
      (case get_domain e st2 obj of
         (Inl err, st3) \<Rightarrow> (Inl err, obj, st3)
       | (Inr dmn, st3) \<Rightarrow>
      (case get_blocks obj of
         (Inl err, obj') \<Rightarrow> (Inl err, obj', st3)
       | (Inr blocks, obj') \<Rightarrow>
           (Inr \<lparr>pr_type = type_field (p_type obj) ''page'',
                 pr_project = p_project obj,
                 pr_project_alias = project_alias,
                 pr_version = p_version obj,
                 pr_title = p_title obj,
                 pr_path = pth,
                 pr_domain = dmn,
                 pr_highlights = PageHighlightSerializer (highlight_source (p_highlight obj)),
                 pr_blocks = blocks\<rparr>,
            obj', st3)))))"

subsection \<open>Notions used in the statements\<close>

text \<open>The block a nested hit is serialized to when its tag is the one of its group.\<close>

fun block_of :: "inner_hit \<Rightarrow> block" where
  "block_of (SectionHit s) = SectionBlock (SectionSearchSerializer s)"
| "block_of (DomainHit d) = DomainBlock (DomainSearchSerializer d)"

fun well_tagged :: "inner_hit \<Rightarrow> bool" where
  "well_tagged (SectionHit s) = (s_type s = Some ''section'')"
| "well_tagged (DomainHit d) = (d_type d = Some ''domain'')"

fun block_id :: "block \<Rightarrow> string" where
  "block_id (SectionBlock s) = sr_id s"
| "block_id (DomainBlock d) = dr_id d"

text \<open>A highlights dictionary has the keys \<open>keys\<close>, in this order, each with a list.\<close>

definition highlights_of :: "string list \<Rightarrow> (string \<times> pyval) list \<Rightarrow> bool" where
  "highlights_of keys hl = (map fst hl = keys \<and> list_all is_Lst (map snd hl))"

fun block_highlights_ok :: "block \<Rightarrow> bool" where
  "block_highlights_ok (SectionBlock s) = highlights_of [''title'', ''content''] (sr_highlights s)"
| "block_highlights_ok (DomainBlock d) = highlights_of [''name'', ''content''] (dr_highlights d)"

text \<open>
  The characters of a scheme that \<^verbatim>\<open>urlsplit\<close> leaves as they are, the letters
  among them, with which a scheme starts, and the characters at which \<^verbatim>\<open>urlparse\<close>
  cuts a URL or which it removes from it.
\<close>

definition lower_scheme_chars :: "char list" where
  "lower_scheme_chars = ''abcdefghijklmnopqrstuvwxyz0123456789+-.''"

definition lower_letters :: "char list" where
  "lower_letters = ''abcdefghijklmnopqrstuvwxyz''"

definition reserved_chars :: "char list" where
  "reserved_chars = [CHR ''?'', CHR ''#'', CHR '';'', CHR 0x09, CHR 0x0D, CHR 0x0A]"

subsection \<open>Example data\<close>

definition example_env :: env where
  "example_env =
     \<lparr>registry = (\<lambda>s. if s = ''docs''
         then Some \<lparr>get_docs_url = (\<lambda>v. ''https://docs.example.com/en/'' @ v @ ''/''),
                    superprojects_alias = [Some ''parent'']\<rparr>
         else None),
      SPHINX_HTMLDIR = ''sphinx_htmldir'',
      MKDOCS = ''mkdocs''\<rparr>"

definition example_session :: session where
  "example_session = \<lparr>projects_data = None, lookups = 0\<rparr>"

definition example_section :: "string \<Rightarrow> real \<Rightarrow> section_hit" where
  "example_section i sc =
     \<lparr>s_type = None, s_id = i, s_title = ''Title'', s_content = ''Text'', s_score = sc,
      s_highlight = None\<rparr>"

definition example_domain :: "string \<Rightarrow> real \<Rightarrow> domain_hit" where
  "example_domain i sc =
     \<lparr>d_type = None, d_role_name = ''py:function'', d_name = ''name'', d_anchor = i,
      d_docstrings = ''Docs'', d_score = sc, d_highlight = None\<rparr>"

definition example_page :: "string \<Rightarrow> string \<Rightarrow> string \<Rightarrow> page_hit" where
  "example_page project doctype pth =
     \<lparr>p_type = None, p_project = project, p_version = ''latest'', p_title = ''Guide'',
      p_full_path = pth, p_doctype = doctype, p_highlight = None,
      p_sections = Some [example_section ''s1'' (5 / 10), example_section ''s2'' (9 / 10)],
      p_domains = Some [example_domain ''d1'' (9 / 10), example_domain ''d2'' (3 / 10)]\<rparr>"

text \<open>
  The data the registry of the example yields for the project \<^verbatim>\<open>docs\<close> at the
  version \<^verbatim>\<open>latest\<close>, and the session that holds it after one lookup.
\<close>

definition example_project_data :: ProjectData where
  "example_project_data =
     \<lparr>pd_version = \<lparr>vd_slug = ''latest'', vd_docs_url = ''https://docs.example.com/en/latest/''\<rparr>,
      pd_alias = Some ''parent''\<rparr>"

definition example_cached_session :: session where
  "example_cached_session =
     \<lparr>projects_data = Some [''docs'' \<mapsto> example_project_data], lookups = 1\<rparr>"

section \<open>Properties\<close>

subsection \<open>Sorting\<close>

lemma mset_sorted_reverse: "mset (sorted_reverse k xs) = mset xs"
  by (simp add: sorted_reverse_def)

lemma set_sorted_reverse: "set (sorted_reverse k xs) = set xs"
  by (simp add: sorted_reverse_def)

lemma descending_sorted_reverse: "sorted_wrt (\<lambda>a b. k b \<le> k a) (sorted_reverse k xs)"
proof -
  have "sorted (map k (sort_key k (rev xs)))" by simp
  then have "sorted_wrt (\<lambda>a b. k a \<le> k b) (sort_key k (rev xs))"
    by (simp add: sorted_map)
  then show ?thesis
    by (simp add: sorted_reverse_def sorted_wrt_rev)
qed

lemma stable_sorted_reverse:
  "filter (\<lambda>y. k y = c) (sorted_reverse k xs) = filter (\<lambda>y. k y = c) xs"
proof -
  have "filter (\<lambda>y. k y = c) (sorted_reverse k xs)
      = rev (filter (\<lambda>y. k y = c) (sort_key k (rev xs)))"
    by (simp add: sorted_reverse_def rev_filter)
  also have "\<dots> = rev (filter (\<lambda>y. k y = c) (rev xs))"
    by (simp only: sort_key_stable)
  also have "\<dots> = filter (\<lambda>y. k y = c) xs"
    by (simp add: rev_filter)
  finally show ?thesis .
qed

subsection \<open>Blocks never raise\<close>

lemma serialize_all_well_tagged:
  "list_all well_tagged hs \<Longrightarrow> serialize_all hs = Inr (map block_of hs)"
proof (induction hs)
  case Nil
  then show ?case by simp
next
  case (Cons h hs)
  then have "serialize_inner h = Inr (block_of h)"
    by (cases h) (simp_all add: serialize_inner_def)
  with Cons show ?case by simp
qed

lemma chain_tagged:
  "chain (tagged obj) = map SectionHit (tag_sections (or_empty (p_sections obj)))
      @ map DomainHit (tag_domains (or_empty (p_domains obj)))"
  by (simp add: chain_def tagged_def or_empty_def tag_sections_def tag_domains_def
      split: option.splits)

lemma well_tagged_chain: "list_all well_tagged (chain (tagged obj))"
  by (auto simp: chain_tagged list_all_iff tag_sections_def tag_domains_def)

lemma well_tagged_sorted_results: "list_all well_tagged (sorted_results obj)"
  using well_tagged_chain[of obj]
  by (simp add: sorted_results_def list_all_iff set_sorted_reverse)

lemma get_blocks_total:
  "get_blocks obj = (Inr (map block_of (sorted_results obj)), tagged obj)"
  by (simp add: get_blocks_def serialize_all_well_tagged well_tagged_sorted_results)

subsection \<open>Results depend on the cache, not on the count of lookups\<close>

lemma get_project_data_cache_only:
  assumes "projects_data st = projects_data st2"
  shows "fst (get_project_data e st obj) = fst (get_project_data e st2 obj)
       \<and> projects_data (snd (get_project_data e st obj))
           = projects_data (snd (get_project_data e st2 obj))"
  using assms by (simp add: get_project_data_def cached_def Let_def split: option.splits)

lemma get_project_alias_cache_only:
  assumes "projects_data st = projects_data st2"
  shows "fst (get_project_alias e st obj) = fst (get_project_alias e st2 obj)
       \<and> projects_data (snd (get_project_alias e st obj))
           = projects_data (snd (get_project_alias e st2 obj))"
  using get_project_data_cache_only[OF assms, of e obj]
  by (auto simp: get_project_alias_def split: prod.splits option.splits)

lemma get_full_path_cache_only:
  assumes "projects_data st = projects_data st2"
  shows "fst (get_full_path e st obj) = fst (get_full_path e st2 obj)
       \<and> projects_data (snd (get_full_path e st obj))
           = projects_data (snd (get_full_path e st2 obj))"
  using get_project_data_cache_only[OF assms, of e obj]
  by (auto simp: get_full_path_def Let_def split: prod.splits option.splits)

lemma get_path_cache_only:
  assumes "projects_data st = projects_data st2"
  shows "fst (get_path e st obj) = fst (get_path e st2 obj)
       \<and> projects_data (snd (get_path e st obj)) = projects_data (snd (get_path e st2 obj))"
  using get_full_path_cache_only[OF assms, of e obj]
  by (auto simp: get_path_def split: prod.splits option.splits sum.splits)

lemma get_domain_cache_only:
  assumes "projects_data st = projects_data st2"
  shows "fst (get_domain e st obj) = fst (get_domain e st2 obj)
       \<and> projects_data (snd (get_domain e st obj)) = projects_data (snd (get_domain e st2 obj))"
  using get_full_path_cache_only[OF assms, of e obj]
  by (auto simp: get_domain_def split: prod.splits option.splits sum.splits)

lemma page_cache_only:
  assumes "projects_data st = projects_data st2"
  shows "fst (PageSearchSerializer e st obj) = fst (PageSearchSerializer e st2 obj)"
proof -
  obtain a s1 where a: "get_project_alias e st obj = (a, s1)" by force
  obtain a2 t1 where a2: "get_project_alias e st2 obj = (a2, t1)" by force
  from get_project_alias_cache_only[OF assms, of e obj] a a2
  have e1: "a2 = a" "projects_data s1 = projects_data t1" by simp_all
  obtain b s2 where b: "get_path e s1 obj = (b, s2)" by force
  obtain b2 t2 where b2: "get_path e t1 obj = (b2, t2)" by force
  from get_path_cache_only[OF e1(2), of e obj] b b2
  have e2: "b2 = b" "projects_data s2 = projects_data t2" by simp_all
  obtain c s3 where c: "get_domain e s2 obj = (c, s3)" by force
  obtain c2 t3 where c2: "get_domain e t2 obj = (c2, t3)" by force
  from get_domain_cache_only[OF e2(2), of e obj] c c2 have e3: "c2 = c" by simp
  show ?thesis
    by (simp add: PageSearchSerializer_def a a2 b b2 c c2 e1 e2 e3 get_blocks_total
        split: sum.splits)
qed

subsection \<open>Highlights of each serializer\<close>

lemma highlights_project:
  "highlights_of [''name'', ''slug'', ''description''] (ProjectHighlightSerializer a)"
  by (simp add: highlights_of_def ProjectHighlightSerializer_def)

lemma highlights_page: "highlights_of [''title''] (PageHighlightSerializer a)"
  by (simp add: highlights_of_def PageHighlightSerializer_def)

lemma highlights_section: "highlights_of [''title'', ''content''] (SectionHighlightSerializer a)"
  by (simp add: highlights_of_def SectionHighlightSerializer_def)

lemma highlights_domain: "highlights_of [''name'', ''content''] (DomainHighlightSerializer a)"
  by (simp add: highlights_of_def DomainHighlightSerializer_def)

lemma block_of_highlights: "block_highlights_ok (block_of h)"
  by (cases h)
    (simp_all add: SectionSearchSerializer_def DomainSearchSerializer_def
      highlights_section highlights_domain)

lemma page_result_shape:
  assumes "fst (PageSearchSerializer e st obj) = Inr r"
  shows "pr_highlights r = PageHighlightSerializer (highlight_source (p_highlight obj))
       \<and> pr_blocks r = map block_of (sorted_results obj)"
  using assms
  by (auto simp: PageSearchSerializer_def get_blocks_total split: prod.splits sum.splits)

subsection \<open>The example data, evaluated\<close>

lemmas example_defs = example_env_def example_session_def example_page_def
  example_section_def example_domain_def example_project_data_def example_cached_session_def

lemmas url_defs = urlparse_def urlsplit_def split_scheme_def splitnetloc_def split_first_def
  splitparams_def UNSAFE_URL_BYTES_TO_REMOVE_def scheme_chars_def uses_params_def lower_char_def
  WHATWG_C0_CONTROL_OR_SPACE_def ascii_alpha_def isascii_def checknetloc_def

lemma example_resolves:
  "get_project_data example_env example_session (example_page ''docs'' d p)
     = (Some example_project_data, example_cached_session)"
  by (simp add: Let_def get_project_data_def cached_def first_def example_defs)

lemma example_cache_hit:
  "get_project_data example_env example_cached_session (example_page ''docs'' d p)
     = (Some example_project_data, example_cached_session)"
  by (simp add: Let_def get_project_data_def cached_def first_def example_defs)

lemma example_blocks:
  "map block_id (map block_of (sorted_results (example_page q d p)))
     = [''s2'', ''d1'', ''s1'', ''d2'']"
  by (simp add: sorted_results_def sorted_reverse_def chain_def tagged_def or_empty_def
      tag_sections_def tag_domains_def SectionSearchSerializer_def DomainSearchSerializer_def
      example_defs)

lemma example_full_path:
  "get_full_path example_env example_session
       (example_page ''docs'' ''sphinx_htmldir'' ''guide/index.html'')
     = (Some ''https://docs.example.com/en/latest/guide/'', example_cached_session)"
  unfolding get_full_path_def example_resolves
  by (simp add: Let_def htmldir_path_def re_sub_index_html_def rstrip_def lstrip_def
      example_defs)

lemma example_full_path_cached:
  "get_full_path example_env example_cached_session
       (example_page ''docs'' ''sphinx_htmldir'' ''guide/index.html'')
     = (Some ''https://docs.example.com/en/latest/guide/'', example_cached_session)"
  unfolding get_full_path_def example_cache_hit
  by (simp add: Let_def htmldir_path_def re_sub_index_html_def rstrip_def lstrip_def
      example_defs)

lemma example_urlparse:
  "urlparse ''https://docs.example.com/en/latest/guide/'' =
     Inr \<lparr>scheme = ''https'', netloc = ''docs.example.com'', path = ''/en/latest/guide/'',
           params = [], query = [], fragment = []\<rparr>"
  by (simp add: url_defs Let_def)

lemma example_page_serialized:
  "PageSearchSerializer example_env example_session
       (example_page ''docs'' ''sphinx_htmldir'' ''guide/index.html'')
     = (Inr \<lparr>pr_type = ''page'', pr_project = ''docs'', pr_project_alias = Some ''parent'',
             pr_version = ''latest'', pr_title = ''Guide'', pr_path = Some ''/en/latest/guide/'',
             pr_domain = Some ''https://docs.example.com'',
             pr_highlights = [(''title'', Lst [])],
             pr_blocks = map block_of (sorted_results
               (example_page ''docs'' ''sphinx_htmldir'' ''guide/index.html''))\<rparr>,
        tagged (example_page ''docs'' ''sphinx_htmldir'' ''guide/index.html''),
        example_cached_session)"
proof -
  have a: "get_project_alias example_env example_session
             (example_page ''docs'' ''sphinx_htmldir'' ''guide/index.html'')
           = (Some ''parent'', example_cached_session)"
    by (simp add: get_project_alias_def example_resolves example_project_data_def)
  have p: "get_path example_env example_cached_session
             (example_page ''docs'' ''sphinx_htmldir'' ''guide/index.html'')
           = (Inr (Some ''/en/latest/guide/''), example_cached_session)"
    by (simp add: get_path_def example_full_path_cached example_urlparse)
  have d: "get_domain example_env example_cached_session
             (example_page ''docs'' ''sphinx_htmldir'' ''guide/index.html'')
           = (Inr (Some ''https://docs.example.com''), example_cached_session)"
    by (simp add: get_domain_def example_full_path_cached example_urlparse)
  show ?thesis
    unfolding PageSearchSerializer_def a prod.case p sum.case d get_blocks_total
    by (simp add: type_field_def PageHighlightSerializer_def highlight_source_def
        get_raw_field_def getattr_def py_or_def example_page_def)
qed

subsection \<open>Stripping slashes\<close>

declare re_sub_scan.simps [simp del]

lemma set_lstrip: "set (lstrip c s) \<subseteq> set s"
  by (auto simp: lstrip_def dest: set_dropWhileD)

lemma set_rstrip: "set (rstrip c s) \<subseteq> set s"
  by (auto simp: rstrip_def dest: set_dropWhileD)

lemma rstrip_append:
  assumes "xs \<noteq> []" and "last xs \<noteq> c"
  shows "rstrip c (xs @ ys) = xs @ rstrip c ys"
proof (cases "\<forall>y\<in>set ys. y = c")
  case True
  from assms have "hd (rev xs) \<noteq> c" "rev xs \<noteq> []" by (simp_all add: hd_rev)
  then have "dropWhile (\<lambda>x. x = c) (rev xs) = rev xs"
    by (cases "rev xs") simp_all
  moreover have "dropWhile (\<lambda>x. x = c) (rev ys) = []" using True by simp
  ultimately show ?thesis using True by (simp add: rstrip_def dropWhile_append)
next
  case False
  then obtain y where "y \<in> set (rev ys)" "\<not> y = c" by auto
  then have "dropWhile (\<lambda>x. x = c) (rev ys @ rev xs) = dropWhile (\<lambda>x. x = c) (rev ys) @ rev xs"
    by (rule dropWhile_append1)
  then show ?thesis by (simp add: rstrip_def)
qed

lemma rstrip_no_trailing: "rstrip c s = [] \<or> last (rstrip c s) \<noteq> c"
proof -
  have "dropWhile (\<lambda>x. x = c) (rev s) = [] \<or> hd (dropWhile (\<lambda>x. x = c) (rev s)) \<noteq> c"
    using hd_dropWhile[of "\<lambda>x. x = c" "rev s"] by blast
  then show ?thesis by (auto simp: rstrip_def last_rev)
qed

lemma lstrip_no_leading: "lstrip c s = [] \<or> hd (lstrip c s) \<noteq> c"
  using hd_dropWhile[of "\<lambda>x. x = c" s] by (auto simp: lstrip_def)

lemma takeWhile_replicate_eq: "takeWhile (\<lambda>x. x = c) s = replicate (length (takeWhile (\<lambda>x. x = c) s)) c"
  by (induction s) simp_all

lemma lstrip_decomp: "s = replicate (length (takeWhile (\<lambda>x. x = c) s)) c @ lstrip c s"
proof -
  have "s = takeWhile (\<lambda>x. x = c) s @ dropWhile (\<lambda>x. x = c) s" by simp
  then show ?thesis
    unfolding lstrip_def using takeWhile_replicate_eq[of c s] by simp
qed

lemma rstrip_decomp: "s = rstrip c s @ replicate (length (takeWhile (\<lambda>x. x = c) (rev s))) c"
proof -
  have "rev s = takeWhile (\<lambda>x. x = c) (rev s) @ dropWhile (\<lambda>x. x = c) (rev s)" by simp
  then have "rev (rev s) = rev (takeWhile (\<lambda>x. x = c) (rev s) @ dropWhile (\<lambda>x. x = c) (rev s))"
    by (rule arg_cong)
  then have "s = rev (dropWhile (\<lambda>x. x = c) (rev s)) @ rev (takeWhile (\<lambda>x. x = c) (rev s))"
    by (simp only: rev_rev_ident rev_append)
  moreover have "rev (takeWhile (\<lambda>x. x = c) (rev s)) = replicate (length (takeWhile (\<lambda>x. x = c) (rev s))) c"
    using takeWhile_replicate_eq[of c "rev s"] by (metis rev_replicate)
  ultimately show ?thesis by (simp only: rstrip_def)
qed

lemma rstrip_head:
  assumes "t = [] \<or> hd t = c"
  shows "rstrip c t = [] \<or> hd (rstrip c t) = c"
proof (cases "rstrip c t = []")
  case True then show ?thesis by simp
next
  case False
  have d: "t = rstrip c t @ replicate (length (takeWhile (\<lambda>x. x = c) (rev t))) c" by (rule rstrip_decomp)
  have "hd (rstrip c t @ replicate (length (takeWhile (\<lambda>x. x = c) (rev t))) c) = hd (rstrip c t)"
    using False by (rule hd_append2)
  with d have "hd t = hd (rstrip c t)" by simp
  moreover have "t \<noteq> []" using False by (auto simp: rstrip_def)
  ultimately show ?thesis using assms by simp
qed


subsection \<open>Parsing an absolute URL\<close>

lemma lower_scheme_char:
  assumes "c \<in> set lower_scheme_chars"
  shows "c \<in> set scheme_chars" and "lower_char c = c" and "c \<noteq> CHR '':''"
  using assms by (auto simp: lower_scheme_chars_def scheme_chars_def lower_char_def)

lemma split_first_absent:
  assumes "c \<notin> set u"
  shows "split_first c u = (u, [])"
proof -
  have "\<And>x. x \<in> set u \<Longrightarrow> x \<noteq> c" using assms by blast
  then have tw: "takeWhile (\<lambda>x. x \<noteq> c) u = u" and dw: "dropWhile (\<lambda>x. x \<noteq> c) u = []"
    by (simp_all add: takeWhile_eq_all_conv)
  show ?thesis unfolding split_first_def tw dw by simp
qed

lemma lower_letter:
  assumes "c \<in> set lower_letters"
  shows "ascii_alpha c" and "\<not> WHATWG_C0_CONTROL_OR_SPACE c"
  using assms
  by (auto simp: lower_letters_def ascii_alpha_def WHATWG_C0_CONTROL_OR_SPACE_def)

lemma split_scheme_lower:
  assumes "sch \<noteq> []" and "set sch \<subseteq> set lower_scheme_chars"
    and "hd sch \<in> set lower_letters"
  shows "split_scheme (sch @ CHR '':'' # rest) = (sch, rest)"
proof -
  have nc: "\<And>x. x \<in> set sch \<Longrightarrow> x \<noteq> CHR '':''"
    using assms(2) lower_scheme_char(3) by blast
  have tw: "takeWhile (\<lambda>c. c \<noteq> CHR '':'') (sch @ CHR '':'' # rest) = sch"
    using nc by (simp add: takeWhile_append2)
  have all: "list_all (\<lambda>c. c \<in> set scheme_chars) sch"
    using assms(2) lower_scheme_char(1) by (auto simp: list_all_iff)
  have low: "map lower_char sch = sch"
    using assms(2) lower_scheme_char(2) by (auto intro: map_idI)
  have al: "ascii_alpha (hd (sch @ CHR '':'' # rest))"
    using assms(1,3) lower_letter(1) by simp
  show ?thesis
    unfolding split_scheme_def tw Let_def using assms(1) all low al by simp
qed

lemma splitnetloc_host:
  assumes "\<And>x. x \<in> set host \<Longrightarrow> x \<notin> {CHR ''/'', CHR ''?'', CHR ''#''}"
  shows "splitnetloc (host @ CHR ''/'' # r) = (host, CHR ''/'' # r)"
  using assms by (simp add: splitnetloc_def takeWhile_append2 dropWhile_append2)

lemma checknetloc_ascii: "isascii loc \<Longrightarrow> checknetloc loc"
  by (simp add: checknetloc_def)

lemma urlparse_absolute:
  assumes sch: "sch \<noteq> []" "set sch \<subseteq> set lower_scheme_chars"
      "hd sch \<in> set lower_letters"
    and host: "CHR ''/'' \<notin> set host" "CHR ''['' \<notin> set host" "CHR '']'' \<notin> set host"
      "isascii host"
    and clean: "set (sch @ host @ r) \<inter> set reserved_chars = {}"
  shows "urlparse (sch @ ''://'' @ host @ CHR ''/'' # r) =
           Inr \<lparr>scheme = sch, netloc = host, path = CHR ''/'' # r, params = [], query = [],
                 fragment = []\<rparr>"
proof -
  let ?u = "sch @ ''://'' @ host @ CHR ''/'' # r"
  have res: "\<And>x. x \<in> set sch \<union> set host \<union> set r \<Longrightarrow> x \<notin> set reserved_chars"
    using clean by auto
  have "hd ?u = hd sch" using sch(1) by simp
  then have "\<not> WHATWG_C0_CONTROL_OR_SPACE (hd ?u)"
    using sch(3) lower_letter(2) by simp
  moreover have "?u \<noteq> []" by simp
  ultimately have d: "dropWhile WHATWG_C0_CONTROL_OR_SPACE ?u = ?u"
    by (cases ?u) simp_all
  have "\<And>x. x \<in> set ?u \<Longrightarrow> x \<notin> set UNSAFE_URL_BYTES_TO_REMOVE"
    using res by (auto simp: reserved_chars_def UNSAFE_URL_BYTES_TO_REMOVE_def)
  then have f: "filter (\<lambda>c. c \<notin> set UNSAFE_URL_BYTES_TO_REMOVE) ?u = ?u"
    by (simp only: filter_id_conv) blast
  have s: "split_scheme ?u = (sch, ''//'' @ host @ CHR ''/'' # r)"
    using split_scheme_lower[OF sch, of "''//'' @ host @ CHR ''/'' # r"] by simp
  have "\<And>x. x \<in> set host \<Longrightarrow> x \<notin> {CHR ''/'', CHR ''?'', CHR ''#''}"
    using host(1) res by (auto simp: reserved_chars_def)
  then have n: "splitnetloc (host @ CHR ''/'' # r) = (host, CHR ''/'' # r)"
    by (rule splitnetloc_host)
  have h: "CHR ''#'' \<notin> set (CHR ''/'' # r)" "CHR ''?'' \<notin> set (CHR ''/'' # r)"
      "CHR '';'' \<notin> set (CHR ''/'' # r)"
    using res by (auto simp: reserved_chars_def)
  have c: "checknetloc host"
    using host(4) by (rule checknetloc_ascii)
  have us: "urlsplit ?u = Inr (sch, host, CHR ''/'' # r, [], [])"
    unfolding urlsplit_def d f Let_def s
    using host(2,3) c by (simp add: n split_first_absent[OF h(1)] split_first_absent[OF h(2)])
  show ?thesis
    unfolding urlparse_def us using h(3) by simp
qed

text \<open>
  The parse of some URLs that are not of this form: a scheme has to start with a letter,
  a host in brackets has to be an IPv6 or IPvFuture address, blanks before the URL are
  dropped, and a host outside ASCII is checked in its NFKC form.
\<close>

lemmas ip_defs = check_bracketed_host_def IPv4Address_def IPv6Address_def IPv6_address_def
  IPv6_parts_def valid_hextet_def parse_octet_def decimal_def hex16_def hex_digit_def

lemma urlparse_scheme_starts_with_digit:
  "urlparse ''1http://host/docs/api.html'' =
     Inr \<lparr>scheme = [], netloc = [], path = ''1http://host/docs/api.html'', params = [],
           query = [], fragment = []\<rparr>"
  by (simp add: url_defs Let_def)

lemma urlparse_bracketed_name:
  "urlparse ''https://[foo]/docs/api.html'' = Inl ValueError"
  by (simp add: url_defs ip_defs Let_def)

lemma urlparse_bracketed_address:
  "urlparse ''https://[::1]/docs/api.html'' =
     Inr \<lparr>scheme = ''https'', netloc = ''[::1]'', path = ''/docs/api.html'', params = [],
           query = [], fragment = []\<rparr>"
  by (simp add: url_defs ip_defs Let_def upt_rec)

lemma urlparse_leading_space:
  "urlparse '' https://host/docs/'' =
     Inr \<lparr>scheme = ''https'', netloc = ''host'', path = ''/docs/'', params = [],
           query = [], fragment = []\<rparr>"
  by (simp add: url_defs Let_def)

lemma urlparse_nfkc_host:
  "urlparse (''http://h'' @ [CHR 0xBC] @ ''x/p'') =
     Inr \<lparr>scheme = ''http'', netloc = ''h'' @ [CHR 0xBC] @ ''x'', path = ''/p'', params = [],
           query = [], fragment = []\<rparr>"
  by (simp add: url_defs nfkc_char_def Let_def)

subsection \<open>The rewritten path and the link\<close>

lemma index_html_end_Some:
  assumes "index_html_end s = Some rest"
  shows "\<exists>c. s = ''index'' @ [c] @ ''html'' @ rest \<and> c \<noteq> CHR 0x0A
           \<and> (rest = [] \<or> rest = [CHR 0x0A])"
  using assms by (rule index_html_end.elims) (simp_all split: if_splits)

lemma set_index_html_end:
  assumes "index_html_end s = Some rest"
  shows "set rest \<subseteq> set s"
proof -
  from index_html_end_Some[OF assms] obtain c where "s = ''index'' @ [c] @ ''html'' @ rest"
    by blast
  then have "set s = set (''index'' @ [c] @ ''html'') \<union> set rest"
    by (metis append.assoc set_append)
  then show ?thesis by blast
qed

lemma set_re_sub_scan: "set (re_sub_scan b s) \<subseteq> insert CHR ''/'' (set s)"
proof (induction b s rule: re_sub_scan.induct)
  case (1 at_start s)
  show ?case
  proof (cases "if at_start then index_html_end s else None")
    case (Some rest)
    then have "index_html_end s = Some rest" by (simp split: if_splits)
    from set_index_html_end[OF this] have "set rest \<subseteq> set s" .
    moreover have "re_sub_scan at_start s = ''/'' @ rest"
      using Some by (subst re_sub_scan.simps) simp
    ultimately show ?thesis by auto
  next
    case None
    note outer = None
    show ?thesis
    proof (cases s)
      case Nil
      have "re_sub_scan at_start [] = []"
        using outer unfolding Nil by (subst re_sub_scan.simps) simp
      then show ?thesis unfolding Nil by simp
    next
      case (Cons c cs)
      show ?thesis
      proof (cases "if c = CHR ''/'' then index_html_end cs else None")
        case (Some rest)
        then have "index_html_end cs = Some rest" by (simp split: if_splits)
        from set_index_html_end[OF this] have "set rest \<subseteq> set cs" .
        moreover have "re_sub_scan at_start (c # cs) = ''/'' @ rest"
          using outer Some unfolding Cons by (subst re_sub_scan.simps) simp
        ultimately show ?thesis unfolding Cons by auto
      next
        case None
        have "re_sub_scan at_start (c # cs) = c # re_sub_scan False cs"
          using outer None unfolding Cons by (subst re_sub_scan.simps) simp
        moreover have "set (re_sub_scan False cs) \<subseteq> insert CHR ''/'' (set cs)"
          by (rule "1.IH"[OF outer Cons None])
        ultimately show ?thesis unfolding Cons by auto
      qed
    qed
  qed
qed

lemma set_htmldir_path: "set (htmldir_path e obj) \<subseteq> insert CHR ''/'' (set (p_full_path obj))"
  using set_re_sub_scan[of True "p_full_path obj"]
  by (simp add: htmldir_path_def re_sub_index_html_def) blast

lemma get_full_path_resolved:
  assumes "fst (get_project_data e st obj) = Some pd"
  shows "get_full_path e st obj =
    (Some (rstrip CHR ''/'' (vd_docs_url (pd_version pd)) @ ''/''
           @ lstrip CHR ''/'' (htmldir_path e obj)),
     snd (get_project_data e st obj))"
  using assms by (cases "get_project_data e st obj") (simp add: get_full_path_def)

text \<open>
  A documentation URL of the form scheme, \<^verbatim>\<open>://\<close>, host and a tail that is empty or
  starts with a slash, joined with a path: when the scheme starts with a letter and the
  host is ASCII without brackets, the parse gives the scheme and the host back, and the
  path component is the rest of the joined URL.
\<close>

lemma absolute_link:
  assumes u: "url = sch @ ''://'' @ host @ tail"
    and sch: "sch \<noteq> []" "set sch \<subseteq> set lower_scheme_chars"
      "hd sch \<in> set lower_letters"
    and host: "host \<noteq> []" "CHR ''/'' \<notin> set host"
      "CHR ''['' \<notin> set host" "CHR '']'' \<notin> set host" "isascii host"
    and tail: "tail = [] \<or> hd tail = CHR ''/''"
    and clean: "set (url @ p) \<inter> set reserved_chars = {}"
  shows "rstrip CHR ''/'' url @ ''/'' @ lstrip CHR ''/'' p
           = (sch @ ''://'' @ host) @ (rstrip CHR ''/'' tail @ ''/'' @ lstrip CHR ''/'' p)"
    and "hd (rstrip CHR ''/'' tail @ ''/'' @ lstrip CHR ''/'' p) = CHR ''/''"
    and "urlparse (rstrip CHR ''/'' url @ ''/'' @ lstrip CHR ''/'' p)
           = Inr \<lparr>scheme = sch, netloc = host,
                  path = rstrip CHR ''/'' tail @ ''/'' @ lstrip CHR ''/'' p,
                  params = [], query = [], fragment = []\<rparr>"
proof -
  let ?rest = "rstrip CHR ''/'' tail @ ''/'' @ lstrip CHR ''/'' p"
  have "last host \<in> set host" using host(1) by (rule last_in_set)
  with host(2) have "last host \<noteq> CHR ''/''" by metis
  then have l: "last (sch @ ''://'' @ host) \<noteq> CHR ''/''" using host(1) by simp
  have "rstrip CHR ''/'' ((sch @ ''://'' @ host) @ tail)
      = (sch @ ''://'' @ host) @ rstrip CHR ''/'' tail"
    by (rule rstrip_append) (simp, rule l)
  then have rs: "rstrip CHR ''/'' url = (sch @ ''://'' @ host) @ rstrip CHR ''/'' tail"
    by (simp add: u)
  show full: "rstrip CHR ''/'' url @ ''/'' @ lstrip CHR ''/'' p = (sch @ ''://'' @ host) @ ?rest"
    unfolding rs by simp
  have "rstrip CHR ''/'' tail = [] \<or> hd (rstrip CHR ''/'' tail) = CHR ''/''"
    using tail by (rule rstrip_head)
  then show hdrest: "hd ?rest = CHR ''/''"
    by (cases "rstrip CHR ''/'' tail") auto
  have "?rest \<noteq> []" by simp
  with hdrest obtain r where r: "?rest = CHR ''/'' # r" by (cases ?rest) auto
  have "set r \<subseteq> set ?rest" unfolding r by auto
  also have "\<dots> \<subseteq> insert CHR ''/'' (set tail \<union> set p)"
    using set_rstrip[of "CHR ''/''" tail] set_lstrip[of "CHR ''/''" p] by auto
  finally have setr: "set r \<subseteq> insert CHR ''/'' (set tail \<union> set p)" .
  have nr: "CHR ''/'' \<notin> set reserved_chars" by (simp add: reserved_chars_def)
  have "set sch \<union> set host \<union> set tail \<union> set p \<subseteq> set (url @ p)"
    unfolding u by auto
  with clean have "(set sch \<union> set host \<union> set tail \<union> set p) \<inter> set reserved_chars = {}"
    by blast
  with setr nr have "(set sch \<union> set host \<union> set r) \<inter> set reserved_chars = {}"
    by blast
  then have cl: "set (sch @ host @ r) \<inter> set reserved_chars = {}"
    by (simp add: Un_assoc)
  have "urlparse (sch @ ''://'' @ host @ CHR ''/'' # r) =
      Inr \<lparr>scheme = sch, netloc = host, path = CHR ''/'' # r, params = [], query = [],
            fragment = []\<rparr>"
    using sch host(2,3,4,5) cl by (rule urlparse_absolute)
  then show "urlparse (rstrip CHR ''/'' url @ ''/'' @ lstrip CHR ''/'' p)
           = Inr \<lparr>scheme = sch, netloc = host, path = ?rest,
                  params = [], query = [], fragment = []\<rparr>"
    unfolding full r by simp
qed

subsection \<open>The rewriting on a segment that is literally \<^verbatim>\<open>index.html\<close>\<close>

lemma index_html_end_long:
  assumes "12 \<le> length s"
  shows "index_html_end s = None"
proof (cases "index_html_end s")
  case None
  then show ?thesis .
next
  case (Some rest)
  from index_html_end_Some[OF Some] obtain c
    where s: "s = ''index'' @ [c] @ ''html'' @ rest" and r: "rest = [] \<or> rest = [CHR 0x0A]"
    by blast
  from r have "length rest \<le> 1" by auto
  with s have "length s \<le> 11" by simp
  with assms show ?thesis by simp
qed

lemma re_sub_scan_index_html:
  "re_sub_scan b (pre @ ''/index.html'') = pre @ ''/''"
proof (induction pre arbitrary: b)
  case Nil
  show ?case by (simp add: re_sub_scan.simps)
next
  case (Cons c cs)
  have 1: "index_html_end (c # cs @ ''/index.html'') = None"
    by (rule index_html_end_long) simp
  have 2: "index_html_end (cs @ ''/index.html'') = None"
  proof (cases cs)
    case Nil
    then show ?thesis by simp
  next
    case (Cons d ds)
    show ?thesis unfolding Cons by (rule index_html_end_long) simp
  qed
  have "re_sub_scan b ((c # cs) @ ''/index.html'') = c # re_sub_scan False (cs @ ''/index.html'')"
    using 1 2 by (subst re_sub_scan.simps) simp
  then show ?case by (simp add: Cons.IH)
qed

lemma htmldir_path_index_html:
  assumes "p_doctype obj \<in> {SPHINX_HTMLDIR e, MKDOCS e}"
  shows "p_full_path obj = pre @ ''/index.html'' \<Longrightarrow> htmldir_path e obj = pre @ ''/''"
    and "p_full_path obj = ''index.html'' \<Longrightarrow> htmldir_path e obj = ''/''"
  using assms
  by (simp_all add: htmldir_path_def re_sub_index_html_def re_sub_scan_index_html)
    (simp add: re_sub_scan.simps)

lemma htmldir_path_other_doctype:
  "p_doctype obj \<notin> {SPHINX_HTMLDIR e, MKDOCS e} \<Longrightarrow> htmldir_path e obj = p_full_path obj"
  by (simp add: htmldir_path_def)

section \<open>The claims\<close>

text \<open>
  C1. \<^verbatim>\<open>get_blocks\<close> never raises; its blocks are the serialized hits of the chain
  of the sections group followed by the domains group, sorted by score: the sorted
  sequence is a permutation of the chain, its scores never increase from one entry to the
  next, and the entries of any one score keep the order they had in the chain (sections
  before domains, each group in its own order).
\<close>

theorem blocks_sorted_by_score_stable:
  "fst (get_blocks obj) = Inr (map block_of (sorted_results obj))
   \<and> mset (sorted_results obj) = mset (chain (tagged obj))
   \<and> sorted_wrt (\<lambda>a b. meta_score a \<ge> meta_score b) (sorted_results obj)
   \<and> (\<forall>c. filter (\<lambda>h. meta_score h = c) (sorted_results obj)
           = filter (\<lambda>h. meta_score h = c) (chain (tagged obj)))
   \<and> chain (tagged obj)
       = map SectionHit (tag_sections (or_empty (p_sections obj)))
         @ map DomainHit (tag_domains (or_empty (p_domains obj)))"
  by (simp add: get_blocks_total sorted_results_def mset_sorted_reverse
      descending_sorted_reverse stable_sorted_reverse chain_tagged[symmetric])

text \<open>
  The example of the claim: sections \<open>s1\<close> (0.5) and \<open>s2\<close> (0.9), domains \<open>d1\<close> (0.9)
  and \<open>d2\<close> (0.3) give the blocks \<open>s2\<close>, \<open>d1\<close>, \<open>s1\<close>, \<open>d2\<close>.
\<close>

theorem blocks_sorted_by_score_stable_witness:
  "fst (get_blocks (example_page ''docs'' ''sphinx_htmldir'' ''guide/index.html''))
     = Inr (map block_of
         (sorted_results (example_page ''docs'' ''sphinx_htmldir'' ''guide/index.html'')))
   \<and> map block_id (map block_of
         (sorted_results (example_page ''docs'' ''sphinx_htmldir'' ''guide/index.html'')))
     = [''s2'', ''d1'', ''s1'', ''d2'']"
  using blocks_sorted_by_score_stable
    [of "example_page ''docs'' ''sphinx_htmldir'' ''guide/index.html''"]
    example_blocks [of "''docs''" "''sphinx_htmldir''" "''guide/index.html''"]
  by blast

text \<open>
  C3, as amended. \<^verbatim>\<open>list(get_raw_field(obj, field, []))\<close> is the value of the raw
  field as a list when the raw field is present and not empty; when the raw field is
  absent or empty it is the value of the plain field as a list, and the empty list when
  the plain field is absent too.
\<close>

theorem raw_field_preferred_when_nonempty:
  "py_list (get_raw_field obj field (Lst [])) =
     (case obj (field @ ''.raw'') of
        Some r \<Rightarrow>
          if truthy r then py_list r
          else (case obj field of Some p \<Rightarrow> py_list p | None \<Rightarrow> [])
      | None \<Rightarrow> (case obj field of Some p \<Rightarrow> py_list p | None \<Rightarrow> []))"
  by (simp add: get_raw_field_def py_or_def getattr_def split: option.splits)

theorem raw_field_preferred_when_nonempty_witness:
  "py_list (get_raw_field
      [''name'' \<mapsto> Str ''Foo'', ''name.raw'' \<mapsto> Lst [''Foo Exact'']] ''name'' (Lst []))
     = [''Foo Exact'']"
  using raw_field_preferred_when_nonempty
    [of "[''name'' \<mapsto> Str ''Foo'', ''name.raw'' \<mapsto> Lst [''Foo Exact'']]" "''name''"]
  by simp

text \<open>
  The claim as stated fails: with the raw field present and empty and the plain field
  \<^verbatim>\<open>['Foo']\<close>, the result is the plain field, not the empty raw one.
\<close>

theorem empty_raw_field_falls_back:
  "[''name.raw'' \<mapsto> Lst [], ''name'' \<mapsto> Lst [''Foo'']] ''name.raw'' = Some (Lst [])
   \<and> py_list (get_raw_field [''name.raw'' \<mapsto> Lst [], ''name'' \<mapsto> Lst [''Foo'']]
         ''name'' (Lst [])) = [''Foo'']
   \<and> py_list (get_raw_field [''name.raw'' \<mapsto> Lst [], ''name'' \<mapsto> Lst [''Foo'']]
         ''name'' (Lst [])) \<noteq> py_list (Lst [])"
  by (simp add: get_raw_field_def py_or_def getattr_def)

text \<open>
  C4. When the cache holds an entry for the project of the hit, \<^verbatim>\<open>_get_project_data\<close>
  returns that entry and leaves the session as it is, the count of registry lookups
  included. Hence a second call for the same project, after a first call that returned
  data, returns the same data without a lookup: the two calls make at most one.
\<close>

theorem cache_hit_no_lookup:
  "(cached st (p_project obj) = Some pd \<longrightarrow> get_project_data e st obj = (Some pd, st))
   \<and> (get_project_data e st obj = (Some pd, st1) \<and> p_project obj2 = p_project obj \<longrightarrow>
        get_project_data e st1 obj2 = (Some pd, st1) \<and> lookups st1 \<le> lookups st + 1)"
  by (auto simp: get_project_data_def cached_def Let_def split: option.splits)

theorem cache_hit_no_lookup_witness:
  "cached example_cached_session
      (p_project (example_page ''docs'' ''sphinx_htmldir'' ''guide/index.html''))
     = Some example_project_data
   \<and> get_project_data example_env example_cached_session
        (example_page ''docs'' ''sphinx_htmldir'' ''guide/index.html'')
     = (Some example_project_data, example_cached_session)
   \<and> get_project_data example_env example_session
        (example_page ''docs'' ''sphinx_htmldir'' ''guide/index.html'')
     = (Some example_project_data, example_cached_session)
   \<and> get_project_data example_env example_cached_session
        (example_page ''docs'' ''mkdocs'' ''api/index.html'')
     = (Some example_project_data, example_cached_session)
   \<and> lookups example_cached_session \<le> lookups example_session + 1"
proof -
  let ?p = "example_page ''docs'' ''sphinx_htmldir'' ''guide/index.html''"
  let ?q = "example_page ''docs'' ''mkdocs'' ''api/index.html''"
  have c: "cached example_cached_session (p_project ?p) = Some example_project_data"
    by (simp add: cached_def example_defs)
  have q: "p_project ?q = p_project ?p"
    by (simp add: example_page_def)
  have l: "lookups example_cached_session \<le> lookups example_session + 1"
    by (simp add: example_defs)
  have r: "get_project_data example_env example_session ?p
      = (Some example_project_data, example_cached_session)"
    by (rule example_resolves)
  from c cache_hit_no_lookup
    [of example_cached_session ?p example_project_data example_env]
  have a: "get_project_data example_env example_cached_session ?p
      = (Some example_project_data, example_cached_session)"
    by blast
  from r q cache_hit_no_lookup
    [of example_session ?p example_project_data example_env example_cached_session ?q]
  have b: "get_project_data example_env example_cached_session ?q
      = (Some example_project_data, example_cached_session)"
    by blast
  from a b c l r show ?thesis by blast
qed

text \<open>
  C5. A page hit whose project is neither in the cache nor in the registry is serialized
  without an exception: \<^verbatim>\<open>project_alias\<close>, \<^verbatim>\<open>path\<close> and \<^verbatim>\<open>domain\<close> are
  \<^verbatim>\<open>None\<close>, the other fields are those of the hit, its highlights and its sorted
  blocks. The three method fields each asked the registry once and the cache is as it
  was, so any hit serialized afterwards has the result it would have had before.
\<close>

theorem unresolved_project_page:
  assumes "registry e (p_project obj) = None" and "cached st (p_project obj) = None"
  shows "PageSearchSerializer e st obj =
          (Inr \<lparr>pr_type = type_field (p_type obj) ''page'',
                pr_project = p_project obj,
                pr_project_alias = None,
                pr_version = p_version obj,
                pr_title = p_title obj,
                pr_path = None,
                pr_domain = None,
                pr_highlights = PageHighlightSerializer (highlight_source (p_highlight obj)),
                pr_blocks = map block_of (sorted_results obj)\<rparr>,
           tagged obj, st\<lparr>lookups := lookups st + 3\<rparr>)
       \<and> length (map block_of (sorted_results obj))
           = length (or_empty (p_sections obj)) + length (or_empty (p_domains obj))
       \<and> fst (PageSearchSerializer e (st\<lparr>lookups := lookups st + 3\<rparr>) sibling)
           = fst (PageSearchSerializer e st sibling)"
proof -
  have g: "\<And>n. get_project_data e (st\<lparr>lookups := n\<rparr>) obj = (None, st\<lparr>lookups := n + 1\<rparr>)"
    using assms by (simp add: get_project_data_def cached_def)
  have g0: "get_project_data e st obj = (None, st\<lparr>lookups := lookups st + 1\<rparr>)"
    using assms by (simp add: get_project_data_def cached_def)
  have 1: "PageSearchSerializer e st obj =
          (Inr \<lparr>pr_type = type_field (p_type obj) ''page'',
                pr_project = p_project obj,
                pr_project_alias = None,
                pr_version = p_version obj,
                pr_title = p_title obj,
                pr_path = None,
                pr_domain = None,
                pr_highlights = PageHighlightSerializer (highlight_source (p_highlight obj)),
                pr_blocks = map block_of (sorted_results obj)\<rparr>,
           tagged obj, st\<lparr>lookups := lookups st + 3\<rparr>)"
    by (simp add: PageSearchSerializer_def get_project_alias_def get_path_def get_domain_def
          get_full_path_def g g0 get_blocks_total)
  have 2: "fst (PageSearchSerializer e (st\<lparr>lookups := lookups st + 3\<rparr>) sibling)
           = fst (PageSearchSerializer e st sibling)"
    by (rule page_cache_only) simp
  have "length (sorted_results obj) = length (chain (tagged obj))"
    by (simp add: sorted_results_def sorted_reverse_def)
  then have 3: "length (map block_of (sorted_results obj))
           = length (or_empty (p_sections obj)) + length (or_empty (p_domains obj))"
    by (simp add: chain_tagged tag_sections_def tag_domains_def)
  from 1 2 3 show ?thesis by simp
qed

theorem unresolved_project_page_witness:
  "registry example_env (p_project (example_page ''gone'' ''mkdocs'' ''guide/index.html'')) = None
   \<and> cached example_session (p_project (example_page ''gone'' ''mkdocs'' ''guide/index.html''))
       = None
   \<and> PageSearchSerializer example_env example_session
        (example_page ''gone'' ''mkdocs'' ''guide/index.html'') =
          (Inr \<lparr>pr_type = ''page'',
                pr_project = ''gone'',
                pr_project_alias = None,
                pr_version = ''latest'',
                pr_title = ''Guide'',
                pr_path = None,
                pr_domain = None,
                pr_highlights = [(''title'', Lst [])],
                pr_blocks = map block_of
                  (sorted_results (example_page ''gone'' ''mkdocs'' ''guide/index.html''))\<rparr>,
           tagged (example_page ''gone'' ''mkdocs'' ''guide/index.html''),
           \<lparr>projects_data = None, lookups = 3\<rparr>)
   \<and> length (map block_of
         (sorted_results (example_page ''gone'' ''mkdocs'' ''guide/index.html''))) = 4
   \<and> fst (PageSearchSerializer example_env \<lparr>projects_data = None, lookups = 3\<rparr>
         (example_page ''docs'' ''sphinx_htmldir'' ''guide/index.html''))
      = fst (PageSearchSerializer example_env example_session
         (example_page ''docs'' ''sphinx_htmldir'' ''guide/index.html''))"
proof -
  have r: "registry example_env (p_project (example_page ''gone'' ''mkdocs'' ''guide/index.html''))
      = None"
    by (simp add: example_defs)
  have c: "cached example_session
      (p_project (example_page ''gone'' ''mkdocs'' ''guide/index.html'')) = None"
    by (simp add: cached_def example_defs)
  have p: "p_type (example_page ''gone'' ''mkdocs'' ''guide/index.html'') = None"
      "p_project (example_page ''gone'' ''mkdocs'' ''guide/index.html'') = ''gone''"
      "p_version (example_page ''gone'' ''mkdocs'' ''guide/index.html'') = ''latest''"
      "p_title (example_page ''gone'' ''mkdocs'' ''guide/index.html'') = ''Guide''"
      "p_highlight (example_page ''gone'' ''mkdocs'' ''guide/index.html'') = None"
      "length (or_empty (p_sections (example_page ''gone'' ''mkdocs'' ''guide/index.html''))) = 2"
      "length (or_empty (p_domains (example_page ''gone'' ''mkdocs'' ''guide/index.html''))) = 2"
    by (simp_all add: example_page_def or_empty_def)
  have h: "PageHighlightSerializer (highlight_source None) = [(''title'', Lst [])]"
    by (simp add: PageHighlightSerializer_def highlight_source_def get_raw_field_def
        getattr_def py_or_def)
  have s: "example_session\<lparr>lookups := lookups example_session + 3\<rparr>
      = \<lparr>projects_data = None, lookups = 3\<rparr>"
    by (simp add: example_session_def)
  from unresolved_project_page[OF r c,
      of "example_page ''docs'' ''sphinx_htmldir'' ''guide/index.html''"]
  show ?thesis
    using r c by (simp add: p h s type_field_def)
qed

text \<open>
  C7. The highlights of every serialized result have exactly the keys its serializer
  declares, each with a list as its value: name, slug and description for a project,
  title and content for a section, name and content for a domain, and title for a page,
  whose blocks are sections and domains of that form. This holds whatever highlight data
  the hit has, and when it has none.
\<close>

theorem highlights_declared_keys:
  "highlights_of [''name'', ''slug'', ''description'']
      (jr_highlights (ProjectSearchSerializer j))
   \<and> highlights_of [''title'', ''content''] (sr_highlights (SectionSearchSerializer s))
   \<and> highlights_of [''name'', ''content''] (dr_highlights (DomainSearchSerializer d))
   \<and> (\<forall>r. fst (PageSearchSerializer e st obj) = Inr r \<longrightarrow>
         highlights_of [''title''] (pr_highlights r)
         \<and> list_all block_highlights_ok (pr_blocks r))"
  by (auto simp: ProjectSearchSerializer_def SectionSearchSerializer_def
      DomainSearchSerializer_def highlights_project highlights_page highlights_section
      highlights_domain list_all_iff block_of_highlights dest!: page_result_shape)

text \<open>
  A project hit with a highlighted name and no other highlight, and the example page,
  which has no highlight data at all.
\<close>

theorem highlights_declared_keys_witness:
  "jr_highlights (ProjectSearchSerializer
      \<lparr>j_type = None, j_name = ''Docs'', j_slug = ''docs'', j_url = ''/projects/docs/'',
       j_description = ''Text'', j_highlight = Some [''name'' \<mapsto> Lst [''<em>Docs</em>'']]\<rparr>)
     = [(''name'', Lst [''<em>Docs</em>'']), (''slug'', Lst []), (''description'', Lst [])]
   \<and> highlights_of [''name'', ''slug'', ''description'']
        [(''name'', Lst [''<em>Docs</em>'']), (''slug'', Lst []), (''description'', Lst [])]
   \<and> (\<exists>r. fst (PageSearchSerializer example_env example_session
               (example_page ''docs'' ''sphinx_htmldir'' ''guide/index.html'')) = Inr r
          \<and> highlights_of [''title''] (pr_highlights r)
          \<and> list_all block_highlights_ok (pr_blocks r))"
proof -
  let ?j = "\<lparr>j_type = None, j_name = ''Docs'', j_slug = ''docs'', j_url = ''/projects/docs/'',
       j_description = ''Text'', j_highlight = Some [''name'' \<mapsto> Lst [''<em>Docs</em>'']]\<rparr>"
  let ?p = "example_page ''docs'' ''sphinx_htmldir'' ''guide/index.html''"
  note t = highlights_declared_keys
    [of ?j "example_section ''s1'' 1" "example_domain ''d1'' 1" example_env example_session ?p]
  have v: "jr_highlights (ProjectSearchSerializer ?j)
     = [(''name'', Lst [''<em>Docs</em>'']), (''slug'', Lst []), (''description'', Lst [])]"
    by (simp add: ProjectSearchSerializer_def ProjectHighlightSerializer_def
        highlight_source_def get_raw_field_def getattr_def py_or_def)
  from t have a: "highlights_of [''name'', ''slug'', ''description'']
      (jr_highlights (ProjectSearchSerializer ?j))"
    by blast
  obtain r where r: "fst (PageSearchSerializer example_env example_session ?p) = Inr r"
    by (simp add: example_page_serialized)
  with t have b: "highlights_of [''title''] (pr_highlights r)
      \<and> list_all block_highlights_ok (pr_blocks r)"
    by blast
  from a v r b show ?thesis by auto
qed

text \<open>
  C8, as amended. When the cache holds no entry for the project of the hit and the
  registry has no such project, \<^verbatim>\<open>_get_project_data\<close> returns \<^verbatim>\<open>None\<close> after one
  lookup and leaves the cache as it was; a later call for the same project asks the
  registry again.
\<close>

theorem unresolved_not_cached:
  assumes "registry e (p_project obj) = None" and "cached st (p_project obj) = None"
    and "p_project obj2 = p_project obj"
  shows "get_project_data e st obj = (None, st\<lparr>lookups := lookups st + 1\<rparr>)
       \<and> projects_data (snd (get_project_data e st obj)) = projects_data st
       \<and> get_project_data e (snd (get_project_data e st obj)) obj2
           = (None, st\<lparr>lookups := lookups st + 2\<rparr>)"
  using assms by (auto simp: get_project_data_def cached_def Let_def split: option.splits)

theorem unresolved_not_cached_witness:
  "registry example_env ''gone'' = None
   \<and> cached example_session ''gone'' = None
   \<and> get_project_data example_env example_session
        (example_page ''gone'' ''mkdocs'' ''guide/index.html'')
      = (None, \<lparr>projects_data = None, lookups = 1\<rparr>)
   \<and> get_project_data example_env \<lparr>projects_data = None, lookups = 1\<rparr>
        (example_page ''gone'' ''sphinx'' ''api.html'')
      = (None, \<lparr>projects_data = None, lookups = 2\<rparr>)"
proof -
  let ?p = "example_page ''gone'' ''mkdocs'' ''guide/index.html''"
  let ?q = "example_page ''gone'' ''sphinx'' ''api.html''"
  have p: "p_project ?p = ''gone''" "p_project ?q = ''gone''"
    by (simp_all add: example_page_def)
  have r: "registry example_env (p_project ?p) = None"
    by (simp add: p example_env_def)
  have c: "cached example_session (p_project ?p) = None"
    by (simp add: cached_def example_session_def)
  have q: "p_project ?q = p_project ?p"
    by (simp add: p)
  have s: "example_session\<lparr>lookups := lookups example_session + 1\<rparr>
        = \<lparr>projects_data = None, lookups = 1\<rparr>"
      "example_session\<lparr>lookups := lookups example_session + 2\<rparr>
        = \<lparr>projects_data = None, lookups = 2\<rparr>"
    by (simp_all add: example_session_def)
  note t = unresolved_not_cached[OF r c q]
  from t have a: "get_project_data example_env example_session ?p
      = (None, \<lparr>projects_data = None, lookups = 1\<rparr>)"
    unfolding s by blast
  from t have b: "get_project_data example_env
        (snd (get_project_data example_env example_session ?p)) ?q
      = (None, \<lparr>projects_data = None, lookups = 2\<rparr>)"
    unfolding s by blast
  from b have b': "get_project_data example_env \<lparr>projects_data = None, lookups = 1\<rparr> ?q
      = (None, \<lparr>projects_data = None, lookups = 2\<rparr>)"
    unfolding a snd_conv .
  from r c have r': "registry example_env ''gone'' = None"
    and c': "cached example_session ''gone'' = None"
    unfolding p by blast+
  from r' c' a b' show ?thesis by blast
qed

text \<open>
  The claim as stated fails for a cache that was supplied with an entry for a project the
  registry does not have: the entry is returned.
\<close>

theorem cached_entry_returned_without_registry:
  "registry example_env ''gone'' = None
   \<and> fst (get_project_data example_env
         \<lparr>projects_data = Some [''gone'' \<mapsto> example_project_data], lookups = 0\<rparr>
         (example_page ''gone'' ''mkdocs'' ''guide/index.html''))
      = Some example_project_data
   \<and> fst (get_project_data example_env
         \<lparr>projects_data = Some [''gone'' \<mapsto> example_project_data], lookups = 0\<rparr>
         (example_page ''gone'' ''mkdocs'' ''guide/index.html''))
      \<noteq> None"
  by (simp add: get_project_data_def cached_def example_env_def example_page_def)

text \<open>
  C9, as amended. Serializing a page changes nothing of the hit but the attribute
  \<^verbatim>\<open>type\<close> of its nested hits: when the serializer returns a page, every hit of the
  sections group has the type \<^verbatim>\<open>section\<close>, every hit of the domains group has the
  type \<^verbatim>\<open>domain\<close>, and every other field of the page hit and of its nested hits is as
  before; when it raises, which it does before it reaches the blocks, the hit is untouched.
\<close>

theorem shaping_only_tags_inner_hits:
  "fst (snd (PageSearchSerializer e st obj)) =
     (if isl (fst (PageSearchSerializer e st obj)) then obj
      else obj\<lparr>p_sections :=
                 map_option (map (\<lambda>s. s\<lparr>s_type := Some ''section''\<rparr>)) (p_sections obj),
               p_domains :=
                 map_option (map (\<lambda>d. d\<lparr>d_type := Some ''domain''\<rparr>)) (p_domains obj)\<rparr>)"
  by (auto simp: PageSearchSerializer_def get_blocks_total tagged_def
      tag_sections_def[abs_def] tag_domains_def[abs_def] split: prod.splits sum.splits)

theorem shaping_only_tags_inner_hits_witness:
  "\<not> isl (fst (PageSearchSerializer example_env example_session
        (example_page ''docs'' ''sphinx_htmldir'' ''guide/index.html'')))
   \<and> fst (snd (PageSearchSerializer example_env example_session
        (example_page ''docs'' ''sphinx_htmldir'' ''guide/index.html'')))
      = \<lparr>p_type = None, p_project = ''docs'', p_version = ''latest'', p_title = ''Guide'',
         p_full_path = ''guide/index.html'', p_doctype = ''sphinx_htmldir'',
         p_highlight = None,
         p_sections = Some [(example_section ''s1'' (5 / 10))\<lparr>s_type := Some ''section''\<rparr>,
                            (example_section ''s2'' (9 / 10))\<lparr>s_type := Some ''section''\<rparr>],
         p_domains = Some [(example_domain ''d1'' (9 / 10))\<lparr>d_type := Some ''domain''\<rparr>,
                           (example_domain ''d2'' (3 / 10))\<lparr>d_type := Some ''domain''\<rparr>]\<rparr>"
proof -
  let ?p = "example_page ''docs'' ''sphinx_htmldir'' ''guide/index.html''"
  have i: "\<not> isl (fst (PageSearchSerializer example_env example_session ?p))"
    by (simp add: example_page_serialized)
  from shaping_only_tags_inner_hits[of example_env example_session ?p] i
  have "fst (snd (PageSearchSerializer example_env example_session ?p))
      = ?p\<lparr>p_sections :=
                 map_option (map (\<lambda>s. s\<lparr>s_type := Some ''section''\<rparr>)) (p_sections ?p),
               p_domains :=
                 map_option (map (\<lambda>d. d\<lparr>d_type := Some ''domain''\<rparr>)) (p_domains ?p)\<rparr>"
    by simp
  also have "\<dots> = \<lparr>p_type = None, p_project = ''docs'', p_version = ''latest'', p_title = ''Guide'',
         p_full_path = ''guide/index.html'', p_doctype = ''sphinx_htmldir'',
         p_highlight = None,
         p_sections = Some [(example_section ''s1'' (5 / 10))\<lparr>s_type := Some ''section''\<rparr>,
                            (example_section ''s2'' (9 / 10))\<lparr>s_type := Some ''section''\<rparr>],
         p_domains = Some [(example_domain ''d1'' (9 / 10))\<lparr>d_type := Some ''domain''\<rparr>,
                           (example_domain ''d2'' (3 / 10))\<lparr>d_type := Some ''domain''\<rparr>]\<rparr>"
    by (simp add: example_page_def)
  finally show ?thesis using i by simp
qed

text \<open>
  The claim as stated fails: the section hits of the example page have no type before
  the page is serialized and the type \<^verbatim>\<open>section\<close> after it.
\<close>

theorem shaping_sets_type_attribute:
  "map s_type (or_empty (p_sections
        (example_page ''docs'' ''sphinx_htmldir'' ''guide/index.html''))) = [None, None]
   \<and> map s_type (or_empty (p_sections (fst (snd
        (PageSearchSerializer example_env example_session
          (example_page ''docs'' ''sphinx_htmldir'' ''guide/index.html''))))))
      = [Some ''section'', Some ''section'']
   \<and> fst (snd (PageSearchSerializer example_env example_session
          (example_page ''docs'' ''sphinx_htmldir'' ''guide/index.html'')))
      \<noteq> example_page ''docs'' ''sphinx_htmldir'' ''guide/index.html''"
proof -
  let ?p = "example_page ''docs'' ''sphinx_htmldir'' ''guide/index.html''"
  have a: "map s_type (or_empty (p_sections ?p)) = [None, None]"
    by (simp add: example_page_def example_section_def or_empty_def)
  have b: "map s_type (or_empty (p_sections (tagged ?p))) = [Some ''section'', Some ''section'']"
    by (simp add: tagged_def tag_sections_def example_page_def or_empty_def)
  from a b have "tagged ?p \<noteq> ?p" by auto
  with a b show ?thesis by (simp add: example_page_serialized)
qed

text \<open>
  C10. The cache is keyed by the project slug alone. After a call that returned data for a
  hit, a call for a hit of the same project returns the same data and leaves the session
  as it is, whatever the version of the second hit: no lookup is made and no entry is
  added. When the first call found nothing in the cache, the data are those of the first
  hit's version: its slug and the documentation URL the registry gives for it.
\<close>

theorem cache_keyed_by_project_slug:
  assumes "get_project_data e st obj = (Some pd, st1)"
    and "p_project obj2 = p_project obj"
  shows "get_project_data e st1 obj2 = (Some pd, st1)
       \<and> cached st1 (p_project obj) = Some pd
       \<and> (cached st (p_project obj) = None \<longrightarrow>
            vd_slug (pd_version pd) = p_version obj
            \<and> (\<exists>p. registry e (p_project obj) = Some p
                   \<and> vd_docs_url (pd_version pd) = get_docs_url p (p_version obj))
            \<and> lookups st1 = lookups st + 1)"
  using assms by (auto simp: get_project_data_def cached_def Let_def split: option.splits)

theorem cache_keyed_by_project_slug_witness:
  "get_project_data example_env example_session
        (example_page ''docs'' ''sphinx_htmldir'' ''guide/index.html'')
      = (Some example_project_data, example_cached_session)
   \<and> p_version ((example_page ''docs'' ''mkdocs'' ''api.html'')\<lparr>p_version := ''stable''\<rparr>)
      \<noteq> p_version (example_page ''docs'' ''sphinx_htmldir'' ''guide/index.html'')
   \<and> get_project_data example_env example_cached_session
        ((example_page ''docs'' ''mkdocs'' ''api.html'')\<lparr>p_version := ''stable''\<rparr>)
      = (Some example_project_data, example_cached_session)
   \<and> cached example_session ''docs'' = None
   \<and> vd_slug (pd_version example_project_data) = ''latest''
   \<and> lookups example_cached_session = lookups example_session + 1"
proof -
  let ?p = "example_page ''docs'' ''sphinx_htmldir'' ''guide/index.html''"
  let ?q = "(example_page ''docs'' ''mkdocs'' ''api.html'')\<lparr>p_version := ''stable''\<rparr>"
  have r: "get_project_data example_env example_session ?p
      = (Some example_project_data, example_cached_session)"
    by (rule example_resolves)
  have q: "p_project ?q = p_project ?p" and v: "p_version ?q \<noteq> p_version ?p"
    and p: "p_project ?p = ''docs''" "p_version ?p = ''latest''"
    by (simp_all add: example_page_def)
  have c: "cached example_session ''docs'' = None"
    by (simp add: cached_def example_session_def)
  from cache_keyed_by_project_slug[OF r q] c r v show ?thesis
    by (simp add: p)
qed

text \<open>
  C6, as amended. For a page hit whose project data resolve, the full URL is the
  documentation URL without its trailing slashes, one slash, and the path of the hit
  (rewritten for the directory doctypes) without its leading slashes. When the
  documentation URL is a scheme that starts with a lower-case letter and consists of
  lower-case letters, digits, \<^verbatim>\<open>+\<close>, \<^verbatim>\<open>-\<close> and \<^verbatim>\<open>.\<close>, then
  \<^verbatim>\<open>://\<close>, a host of ASCII characters without a slash and without brackets, and
  nothing more or a tail that starts with a slash, and neither it nor the path of the hit
  has one of the characters \<^verbatim>\<open>?\<close>, \<^verbatim>\<open>#\<close>, \<^verbatim>\<open>;\<close>, tab, carriage return and
  newline, then the domain is the scheme, \<^verbatim>\<open>://\<close> and the host, the path starts with a
  slash, and the domain followed by the path is the full URL.
\<close>

theorem link_domain_and_path:
  assumes pd: "fst (get_project_data e st obj) = Some pd"
  shows "fst (get_full_path e st obj) =
           Some (rstrip CHR ''/'' (vd_docs_url (pd_version pd)) @ ''/''
                 @ lstrip CHR ''/'' (htmldir_path e obj))
    \<and> (\<exists>n. vd_docs_url (pd_version pd)
            = rstrip CHR ''/'' (vd_docs_url (pd_version pd)) @ replicate n CHR ''/'')
    \<and> (rstrip CHR ''/'' (vd_docs_url (pd_version pd)) = []
        \<or> last (rstrip CHR ''/'' (vd_docs_url (pd_version pd))) \<noteq> CHR ''/'')
    \<and> (\<exists>n. htmldir_path e obj = replicate n CHR ''/'' @ lstrip CHR ''/'' (htmldir_path e obj))
    \<and> (lstrip CHR ''/'' (htmldir_path e obj) = []
        \<or> hd (lstrip CHR ''/'' (htmldir_path e obj)) \<noteq> CHR ''/'')
    \<and> (\<forall>sch host tail.
          vd_docs_url (pd_version pd) = sch @ ''://'' @ host @ tail
          \<and> sch \<noteq> [] \<and> set sch \<subseteq> set lower_scheme_chars
          \<and> hd sch \<in> set lower_letters
          \<and> host \<noteq> [] \<and> CHR ''/'' \<notin> set host
          \<and> CHR ''['' \<notin> set host \<and> CHR '']'' \<notin> set host \<and> isascii host
          \<and> (tail = [] \<or> hd tail = CHR ''/'')
          \<and> set (vd_docs_url (pd_version pd) @ p_full_path obj) \<inter> set reserved_chars = {}
          \<longrightarrow>
            fst (get_domain e st obj) = Inr (Some (sch @ ''://'' @ host))
          \<and> fst (get_path e st obj)
              = Inr (Some (rstrip CHR ''/'' tail @ ''/'' @ lstrip CHR ''/'' (htmldir_path e obj)))
          \<and> hd (rstrip CHR ''/'' tail @ ''/'' @ lstrip CHR ''/'' (htmldir_path e obj)) = CHR ''/''
          \<and> (sch @ ''://'' @ host)
               @ (rstrip CHR ''/'' tail @ ''/'' @ lstrip CHR ''/'' (htmldir_path e obj))
              = rstrip CHR ''/'' (vd_docs_url (pd_version pd)) @ ''/''
                 @ lstrip CHR ''/'' (htmldir_path e obj))"
proof -
  let ?url = "vd_docs_url (pd_version pd)"
  let ?p = "htmldir_path e obj"
  let ?full = "rstrip CHR ''/'' ?url @ ''/'' @ lstrip CHR ''/'' ?p"
  note gfp = get_full_path_resolved[OF pd]
  have A: "fst (get_full_path e st obj) = Some ?full" by (simp add: gfp)
  have B: "\<exists>n. ?url = rstrip CHR ''/'' ?url @ replicate n CHR ''/''"
    using rstrip_decomp[of ?url "CHR ''/''"] by blast
  have B': "rstrip CHR ''/'' ?url = [] \<or> last (rstrip CHR ''/'' ?url) \<noteq> CHR ''/''"
    by (rule rstrip_no_trailing)
  have C: "\<exists>n. ?p = replicate n CHR ''/'' @ lstrip CHR ''/'' ?p"
    using lstrip_decomp[of ?p "CHR ''/''"] by blast
  have C': "lstrip CHR ''/'' ?p = [] \<or> hd (lstrip CHR ''/'' ?p) \<noteq> CHR ''/''"
    by (rule lstrip_no_leading)
  have D: "fst (get_domain e st obj) = Inr (Some (sch @ ''://'' @ host))
          \<and> fst (get_path e st obj)
              = Inr (Some (rstrip CHR ''/'' tail @ ''/'' @ lstrip CHR ''/'' ?p))
          \<and> hd (rstrip CHR ''/'' tail @ ''/'' @ lstrip CHR ''/'' ?p) = CHR ''/''
          \<and> (sch @ ''://'' @ host) @ (rstrip CHR ''/'' tail @ ''/'' @ lstrip CHR ''/'' ?p)
              = ?full"
    if h: "?url = sch @ ''://'' @ host @ tail
          \<and> sch \<noteq> [] \<and> set sch \<subseteq> set lower_scheme_chars
          \<and> hd sch \<in> set lower_letters
          \<and> host \<noteq> [] \<and> CHR ''/'' \<notin> set host
          \<and> CHR ''['' \<notin> set host \<and> CHR '']'' \<notin> set host \<and> isascii host
          \<and> (tail = [] \<or> hd tail = CHR ''/'')
          \<and> set (?url @ p_full_path obj) \<inter> set reserved_chars = {}"
    for sch host tail
  proof -
    from h have u: "?url = sch @ ''://'' @ host @ tail"
      and sch: "sch \<noteq> []" "set sch \<subseteq> set lower_scheme_chars"
        "hd sch \<in> set lower_letters"
      and host: "host \<noteq> []" "CHR ''/'' \<notin> set host"
        "CHR ''['' \<notin> set host" "CHR '']'' \<notin> set host" "isascii host"
      and tail: "tail = [] \<or> hd tail = CHR ''/''"
      and clean: "set (?url @ p_full_path obj) \<inter> set reserved_chars = {}"
      by blast+
    have nr: "CHR ''/'' \<notin> set reserved_chars" by (simp add: reserved_chars_def)
    have "set (?url @ ?p) \<subseteq> insert CHR ''/'' (set (?url @ p_full_path obj))"
      using set_htmldir_path[of e obj] by auto
    with clean nr have clean': "set (?url @ ?p) \<inter> set reserved_chars = {}"
      by blast
    note al = absolute_link[OF u sch host tail clean']
    have ne: "?full \<noteq> []" by simp
    have d: "fst (get_domain e st obj) = Inr (Some (sch @ ''://'' @ host))"
      unfolding get_domain_def gfp prod.case option.case al(3) sum.case using ne by simp
    have p: "fst (get_path e st obj)
        = Inr (Some (rstrip CHR ''/'' tail @ ''/'' @ lstrip CHR ''/'' ?p))"
      unfolding get_path_def gfp prod.case option.case al(3) sum.case using ne by simp
    from d p al(1,2) show ?thesis by simp
  qed
  from D have D': "\<forall>sch host tail.
          ?url = sch @ ''://'' @ host @ tail
          \<and> sch \<noteq> [] \<and> set sch \<subseteq> set lower_scheme_chars
          \<and> hd sch \<in> set lower_letters
          \<and> host \<noteq> [] \<and> CHR ''/'' \<notin> set host
          \<and> CHR ''['' \<notin> set host \<and> CHR '']'' \<notin> set host \<and> isascii host
          \<and> (tail = [] \<or> hd tail = CHR ''/'')
          \<and> set (?url @ p_full_path obj) \<inter> set reserved_chars = {}
          \<longrightarrow>
            fst (get_domain e st obj) = Inr (Some (sch @ ''://'' @ host))
          \<and> fst (get_path e st obj)
              = Inr (Some (rstrip CHR ''/'' tail @ ''/'' @ lstrip CHR ''/'' ?p))
          \<and> hd (rstrip CHR ''/'' tail @ ''/'' @ lstrip CHR ''/'' ?p) = CHR ''/''
          \<and> (sch @ ''://'' @ host) @ (rstrip CHR ''/'' tail @ ''/'' @ lstrip CHR ''/'' ?p)
              = ?full"
    by (intro allI impI)
  show ?thesis
    by (intro conjI) (rule A, rule B, rule B', rule C, rule C', rule D')
qed

theorem link_domain_and_path_witness:
  "fst (get_project_data example_env example_session
         (example_page ''docs'' ''sphinx_htmldir'' ''guide/index.html''))
     = Some example_project_data
   \<and> vd_docs_url (pd_version example_project_data)
     = ''https'' @ ''://'' @ ''docs.example.com'' @ ''/en/latest/''
   \<and> fst (get_full_path example_env example_session
         (example_page ''docs'' ''sphinx_htmldir'' ''guide/index.html''))
     = Some ''https://docs.example.com/en/latest/guide/''
   \<and> fst (get_domain example_env example_session
         (example_page ''docs'' ''sphinx_htmldir'' ''guide/index.html''))
     = Inr (Some ''https://docs.example.com'')
   \<and> fst (get_path example_env example_session
         (example_page ''docs'' ''sphinx_htmldir'' ''guide/index.html''))
     = Inr (Some ''/en/latest/guide/'')"
proof -
  let ?p = "example_page ''docs'' ''sphinx_htmldir'' ''guide/index.html''"
  have pd: "fst (get_project_data example_env example_session ?p) = Some example_project_data"
    by (simp add: example_resolves)
  have u: "vd_docs_url (pd_version example_project_data)
      = ''https'' @ ''://'' @ ''docs.example.com'' @ ''/en/latest/''"
    by (simp add: example_project_data_def)
  have h: "vd_docs_url (pd_version example_project_data)
        = ''https'' @ ''://'' @ ''docs.example.com'' @ ''/en/latest/''
      \<and> ''https'' \<noteq> [] \<and> set ''https'' \<subseteq> set lower_scheme_chars
      \<and> hd ''https'' \<in> set lower_letters
      \<and> ''docs.example.com'' \<noteq> [] \<and> CHR ''/'' \<notin> set ''docs.example.com''
      \<and> CHR ''['' \<notin> set ''docs.example.com'' \<and> CHR '']'' \<notin> set ''docs.example.com''
      \<and> isascii ''docs.example.com''
      \<and> (''/en/latest/'' = [] \<or> hd ''/en/latest/'' = CHR ''/'')
      \<and> set (vd_docs_url (pd_version example_project_data) @ p_full_path ?p)
          \<inter> set reserved_chars = {}"
    by (simp add: example_project_data_def example_page_def lower_scheme_chars_def
        lower_letters_def isascii_def reserved_chars_def)
  have v: "htmldir_path example_env ?p = ''guide/''"
    by (simp add: htmldir_path_def re_sub_index_html_def re_sub_scan.simps example_env_def
        example_page_def)
  have s: "rstrip CHR ''/'' ''/en/latest/'' @ ''/'' @ lstrip CHR ''/'' ''guide/''
      = ''/en/latest/guide/''"
    by (simp add: rstrip_def lstrip_def)
  note t = link_domain_and_path[OF pd]
  from t have "\<forall>sch host tail.
          vd_docs_url (pd_version example_project_data) = sch @ ''://'' @ host @ tail
          \<and> sch \<noteq> [] \<and> set sch \<subseteq> set lower_scheme_chars
          \<and> hd sch \<in> set lower_letters
          \<and> host \<noteq> [] \<and> CHR ''/'' \<notin> set host
          \<and> CHR ''['' \<notin> set host \<and> CHR '']'' \<notin> set host \<and> isascii host
          \<and> (tail = [] \<or> hd tail = CHR ''/'')
          \<and> set (vd_docs_url (pd_version example_project_data) @ p_full_path ?p)
              \<inter> set reserved_chars = {}
          \<longrightarrow>
            fst (get_domain example_env example_session ?p) = Inr (Some (sch @ ''://'' @ host))
          \<and> fst (get_path example_env example_session ?p)
              = Inr (Some (rstrip CHR ''/'' tail @ ''/''
                    @ lstrip CHR ''/'' (htmldir_path example_env ?p)))
          \<and> hd (rstrip CHR ''/'' tail @ ''/''
                    @ lstrip CHR ''/'' (htmldir_path example_env ?p)) = CHR ''/''
          \<and> (sch @ ''://'' @ host)
               @ (rstrip CHR ''/'' tail @ ''/''
                    @ lstrip CHR ''/'' (htmldir_path example_env ?p))
              = rstrip CHR ''/'' (vd_docs_url (pd_version example_project_data)) @ ''/''
                 @ lstrip CHR ''/'' (htmldir_path example_env ?p)"
    by blast
  from this[rule_format, OF h]
  have d: "fst (get_domain example_env example_session ?p)
        = Inr (Some (''https'' @ ''://'' @ ''docs.example.com''))"
    and p: "fst (get_path example_env example_session ?p)
        = Inr (Some (rstrip CHR ''/'' ''/en/latest/'' @ ''/''
             @ lstrip CHR ''/'' (htmldir_path example_env ?p)))"
    by blast+
  have f: "fst (get_full_path example_env example_session ?p)
      = Some ''https://docs.example.com/en/latest/guide/''"
    by (simp add: example_full_path)
  from d have d': "fst (get_domain example_env example_session ?p)
      = Inr (Some ''https://docs.example.com'')"
    by simp
  from p have p': "fst (get_path example_env example_session ?p)
      = Inr (Some ''/en/latest/guide/'')"
    unfolding v s .
  from pd u f d' p' show ?thesis by blast
qed

text \<open>
  The claim as stated fails for a page whose path has a \<^verbatim>\<open>#\<close>: the parser cuts the
  fragment off, and the domain followed by the path is not the full URL.
\<close>

theorem fragment_cut_from_path:
  "fst (get_full_path example_env example_session
         (example_page ''docs'' ''sphinx_htmldir'' ''c#.html''))
     = Some ''https://docs.example.com/en/latest/c#.html''
   \<and> fst (get_domain example_env example_session
         (example_page ''docs'' ''sphinx_htmldir'' ''c#.html''))
     = Inr (Some ''https://docs.example.com'')
   \<and> fst (get_path example_env example_session
         (example_page ''docs'' ''sphinx_htmldir'' ''c#.html''))
     = Inr (Some ''/en/latest/c'')
   \<and> ''https://docs.example.com'' @ ''/en/latest/c''
     \<noteq> ''https://docs.example.com/en/latest/c#.html''"
proof -
  let ?p = "example_page ''docs'' ''sphinx_htmldir'' ''c#.html''"
  have v: "htmldir_path example_env ?p = ''c#.html''"
    by (simp add: htmldir_path_def re_sub_index_html_def re_sub_scan.simps example_env_def
        example_page_def)
  have f: "get_full_path example_env example_session ?p
      = (Some ''https://docs.example.com/en/latest/c#.html'', example_cached_session)"
    unfolding get_full_path_def example_resolves v
    by (simp add: Let_def rstrip_def lstrip_def example_project_data_def)
  have u: "urlparse ''https://docs.example.com/en/latest/c#.html'' =
     Inr \<lparr>scheme = ''https'', netloc = ''docs.example.com'', path = ''/en/latest/c'',
           params = [], query = [], fragment = ''.html''\<rparr>"
    by (simp add: url_defs Let_def)
  have d: "fst (get_domain example_env example_session ?p)
      = Inr (Some ''https://docs.example.com'')"
    unfolding get_domain_def f prod.case option.case u sum.case by simp
  have p: "fst (get_path example_env example_session ?p) = Inr (Some ''/en/latest/c'')"
    unfolding get_path_def f prod.case option.case u sum.case by simp
  from f d p show ?thesis by simp
qed

text \<open>
  C2. The rewriting of the path on the examples of the claim, and on two paths that do
  not end in the segment \<^verbatim>\<open>index.html\<close> and are rewritten all the same: the dot of
  the pattern matches any character, and \<^verbatim>\<open>$\<close> matches before a final newline.
  For a doctype outside the set the path is never rewritten.
\<close>

theorem index_html_rewriting_evaluated:
  "htmldir_path example_env (example_page ''docs'' ''sphinx_htmldir'' ''guide/index.html'')
     = ''guide/''
   \<and> htmldir_path example_env (example_page ''docs'' ''mkdocs'' ''index.html'') = ''/''
   \<and> htmldir_path example_env (example_page ''docs'' ''sphinx_htmldir'' ''guide/usage.html'')
     = ''guide/usage.html''
   \<and> htmldir_path example_env (example_page ''docs'' ''sphinx_htmldir'' ''myindex.html'')
     = ''myindex.html''
   \<and> htmldir_path example_env (example_page ''docs'' ''sphinx'' ''guide/index.html'')
     = ''guide/index.html''
   \<and> htmldir_path example_env (example_page ''docs'' ''sphinx_htmldir'' ''guide/indexXhtml'')
     = ''guide/''
   \<and> htmldir_path example_env
        (example_page ''docs'' ''sphinx_htmldir'' (''guide/index.html'' @ [CHR 0x0A]))
     = ''guide/'' @ [CHR 0x0A]"
  by (simp add: htmldir_path_def re_sub_index_html_def re_sub_scan.simps example_env_def
      example_page_def)

end
